theory Spec2Isabelle
  imports Complex_Main
begin

section \<open>Numbers as the Python code sees them\<close>

text \<open>
  The metrics and indicator values are IEEE doubles (Python \<open>float\<close>, \<open>numpy.float64\<close>):
  a finite value, one of the two infinities, or NaN. Finite values are modelled as reals
  (rounding and overflow are left out); the infinities and NaN are kept, because the code
  produces them on purpose (\<open>float('inf')\<close>, \<open>np.nan\<close>) and compares against them.
\<close>

datatype pyfloat = Fin real | PInf | NInf | NaN

text \<open>Comparisons: every ordered comparison with NaN is false.\<close>

fun fl_lt :: "pyfloat \<Rightarrow> pyfloat \<Rightarrow> bool" where
  "fl_lt (Fin a) (Fin b) = (a < b)"
| "fl_lt (Fin a) PInf = True"
| "fl_lt NInf (Fin b) = True"
| "fl_lt NInf PInf = True"
| "fl_lt _ _ = False"

fun fl_le :: "pyfloat \<Rightarrow> pyfloat \<Rightarrow> bool" where
  "fl_le (Fin a) (Fin b) = (a \<le> b)"
| "fl_le (Fin a) PInf = True"
| "fl_le NInf (Fin b) = True"
| "fl_le NInf PInf = True"
| "fl_le PInf PInf = True"
| "fl_le NInf NInf = True"
| "fl_le _ _ = False"

definition fl_gt :: "pyfloat \<Rightarrow> pyfloat \<Rightarrow> bool" where
  "fl_gt a b = fl_lt b a"

text \<open>
  Arithmetic as numpy does it: no operation raises, an undefined result is NaN
  (signed zeros are not modelled: a zero divisor counts as \<open>+0\<close>).
\<close>

definition inf_of_sign :: "real \<Rightarrow> pyfloat" where
  "inf_of_sign s = (if 0 < s then PInf else if s < 0 then NInf else NaN)"

fun fl_add :: "pyfloat \<Rightarrow> pyfloat \<Rightarrow> pyfloat" where
  "fl_add (Fin a) (Fin b) = Fin (a + b)"
| "fl_add NaN _ = NaN"
| "fl_add _ NaN = NaN"
| "fl_add PInf NInf = NaN"
| "fl_add NInf PInf = NaN"
| "fl_add PInf _ = PInf"
| "fl_add NInf _ = NInf"
| "fl_add _ PInf = PInf"
| "fl_add _ NInf = NInf"

fun fl_neg :: "pyfloat \<Rightarrow> pyfloat" where
  "fl_neg (Fin a) = Fin (- a)"
| "fl_neg PInf = NInf"
| "fl_neg NInf = PInf"
| "fl_neg NaN = NaN"

definition fl_sub :: "pyfloat \<Rightarrow> pyfloat \<Rightarrow> pyfloat" where
  "fl_sub a b = fl_add a (fl_neg b)"

fun fl_mul :: "pyfloat \<Rightarrow> pyfloat \<Rightarrow> pyfloat" where
  "fl_mul (Fin a) (Fin b) = Fin (a * b)"
| "fl_mul (Fin a) PInf = inf_of_sign a"
| "fl_mul (Fin a) NInf = inf_of_sign (- a)"
| "fl_mul PInf (Fin b) = inf_of_sign b"
| "fl_mul NInf (Fin b) = inf_of_sign (- b)"
| "fl_mul PInf PInf = PInf"
| "fl_mul PInf NInf = NInf"
| "fl_mul NInf PInf = NInf"
| "fl_mul NInf NInf = PInf"
| "fl_mul _ _ = NaN"

fun fl_div :: "pyfloat \<Rightarrow> pyfloat \<Rightarrow> pyfloat" where
  "fl_div (Fin a) (Fin b) = (if b = 0 then inf_of_sign a else Fin (a / b))"
| "fl_div (Fin a) PInf = Fin 0"
| "fl_div (Fin a) NInf = Fin 0"
| "fl_div PInf (Fin b) = (if 0 \<le> b then PInf else NInf)"
| "fl_div NInf (Fin b) = (if 0 \<le> b then NInf else PInf)"
| "fl_div _ _ = NaN"

text \<open>\<open>dict.get(key, default)\<close> on a dictionary of numbers.\<close>

definition dict_get :: "(string \<rightharpoonup> pyfloat) \<Rightarrow> string \<Rightarrow> pyfloat \<Rightarrow> pyfloat" where
  "dict_get d k dflt = (case d k of Some v \<Rightarrow> v | None \<Rightarrow> dflt)"


section \<open>Errors\<close>

text \<open>The Python exceptions that the modelled code can raise.\<close>

datatype error = IndexError | ZeroDivisionError | TypeError | ValueError | OverflowError


section \<open>Scoring and recommendation layer (\<open>combined_analysis.py\<close>)\<close>

subsection \<open>\<open>CombinedAnalysis._calculate_fundamental_score\<close>\<close>

text \<open>
  The function reads eleven numeric entries of the fundamentals dictionary with
  \<open>fund_result.get\<close> and adds points bucket by bucket. Each bucket below is the
  run of \<open>if\<close>/\<open>elif\<close> statements under the corresponding comment of the source,
  in the source's order.
\<close>

definition profitability_points :: "(string \<rightharpoonup> pyfloat) \<Rightarrow> nat" where
  "profitability_points fund_result =
     (if fl_gt (dict_get fund_result ''ROE'' (Fin 0)) (Fin 15) then 10
      else if fl_gt (dict_get fund_result ''ROE'' (Fin 0)) (Fin 10) then 5 else 0)
   + (if fl_gt (dict_get fund_result ''ROCE'' (Fin 0)) (Fin 15) then 10
      else if fl_gt (dict_get fund_result ''ROCE'' (Fin 0)) (Fin 10) then 5 else 0)
   + (if fl_gt (dict_get fund_result ''NPM'' (Fin 0)) (Fin 10) then 10
      else if fl_gt (dict_get fund_result ''NPM'' (Fin 0)) (Fin 5) then 5 else 0)"

definition growth_points :: "(string \<rightharpoonup> pyfloat) \<Rightarrow> nat" where
  "growth_points fund_result =
     (if fl_gt (dict_get fund_result ''Earnings Growth 5yr cagr'' (Fin 0)) (Fin 15) then 10
      else if fl_gt (dict_get fund_result ''Earnings Growth 5yr cagr'' (Fin 0)) (Fin 5) then 5 else 0)
   + (if fl_gt (dict_get fund_result ''Sales Growth 5yr cagr'' (Fin 0)) (Fin 15) then 10
      else if fl_gt (dict_get fund_result ''Sales Growth 5yr cagr'' (Fin 0)) (Fin 5) then 5 else 0)"

definition health_points :: "(string \<rightharpoonup> pyfloat) \<Rightarrow> nat" where
  "health_points fund_result =
     (if fl_lt (dict_get fund_result ''d/e_market'' (Fin 0)) (Fin (1/2)) then 10
      else if fl_lt (dict_get fund_result ''d/e_market'' (Fin 0)) (Fin 1) then 5 else 0)
   + (if fl_gt (dict_get fund_result ''Interest coverage'' (Fin 0)) (Fin 3) then 10
      else if fl_gt (dict_get fund_result ''Interest coverage'' (Fin 0)) (Fin 2) then 5 else 0)
   + (if fl_gt (dict_get fund_result ''CFO'' (Fin 0)) (Fin 0) then 5 else 0)"

definition valuation_points :: "(string \<rightharpoonup> pyfloat) \<Rightarrow> nat" where
  "valuation_points fund_result =
     (let pe = dict_get fund_result ''p/e'' PInf in
      (if fl_lt pe (Fin 15) \<and> fl_gt pe (Fin 0) then 10
       else if fl_lt pe (Fin 25) \<and> fl_gt pe (Fin 0) then 5 else 0))
   + (if fl_gt (dict_get fund_result ''EY'' (Fin 0)) (Fin 7) then 5 else 0)"

definition cash_flow_points :: "(string \<rightharpoonup> pyfloat) \<Rightarrow> nat" where
  "cash_flow_points fund_result =
     (if fl_gt (dict_get fund_result ''cCFO/cPAT'' (Fin 0)) (Fin 1) then 10
      else if fl_gt (dict_get fund_result ''cCFO/cPAT'' (Fin 0)) (Fin (8/10)) then 5 else 0)"

text \<open>The two accumulators of the source: \<open>score\<close> and \<open>max_score\<close>.\<close>

definition fundamental_points :: "(string \<rightharpoonup> pyfloat) \<Rightarrow> nat" where
  "fundamental_points fund_result =
     0 + profitability_points fund_result + growth_points fund_result
       + health_points fund_result + valuation_points fund_result
       + cash_flow_points fund_result"

definition fundamental_max_score :: nat where
  "fundamental_max_score = 0 + 30 + 20 + 25 + 15 + 10"

definition calculate_fundamental_score :: "(string \<rightharpoonup> pyfloat) \<Rightarrow> real" where
  "calculate_fundamental_score fund_result =
     (if 0 < fundamental_max_score
      then (real (fundamental_points fund_result) / real fundamental_max_score) * 100
      else 0)"

text \<open>
  Two fundamentals dictionaries with the headline values ROE 18, ROCE 16, NPM 12,
  d/e_market 0.3, Interest coverage 5, P/E 12, EY 8 and cCFO/cPAT 1.2 and a positive
  operating cash flow. They differ in the two growth entries only: 4 per cent a year in
  the first, 20 and 18 per cent in the second.
\<close>

definition clean_fundamentals :: "string \<rightharpoonup> pyfloat" where
  "clean_fundamentals = map_of
     [(''ROE'', Fin 18), (''ROCE'', Fin 16), (''NPM'', Fin 12),
      (''Earnings Growth 5yr cagr'', Fin 4), (''Sales Growth 5yr cagr'', Fin 4),
      (''d/e_market'', Fin (3/10)), (''Interest coverage'', Fin 5), (''CFO'', Fin 1000),
      (''p/e'', Fin 12), (''EY'', Fin 8), (''cCFO/cPAT'', Fin (12/10))]"

definition growing_fundamentals :: "string \<rightharpoonup> pyfloat" where
  "growing_fundamentals = map_of
     [(''ROE'', Fin 18), (''ROCE'', Fin 16), (''NPM'', Fin 12),
      (''Earnings Growth 5yr cagr'', Fin 20), (''Sales Growth 5yr cagr'', Fin 18),
      (''d/e_market'', Fin (3/10)), (''Interest coverage'', Fin 5), (''CFO'', Fin 1000),
      (''p/e'', Fin 12), (''EY'', Fin 8), (''cCFO/cPAT'', Fin (12/10))]"

subsection \<open>The recommendation of \<open>CombinedAnalysis.analyze_stock_comprehensive\<close>\<close>

text \<open>
  \<open>fund_score\<close> is the result of \<open>_calculate_fundamental_score\<close> and \<open>tech_score\<close> the
  \<open>score_percentage\<close> of the technical analysis; both are finite. The label strings of
  the source carry a coloured-circle prefix that is not ASCII; the constructors name the
  text after it.
\<close>

datatype recommendation = STRONG_BUY | BUY_WITH_CAUTION | WAIT | AVOID

definition recommendation_of :: "real \<Rightarrow> real \<Rightarrow> recommendation \<times> string" where
  "recommendation_of fund_score tech_score =
     (if fund_score \<ge> 70 \<and> tech_score \<ge> 67
        then (STRONG_BUY, ''Enter position - Excellent fundamentals and technicals'')
      else if fund_score \<ge> 70 \<and> tech_score \<ge> 50
        then (BUY_WITH_CAUTION, ''Good fundamentals, wait for better technical setup'')
      else if fund_score \<ge> 50 \<and> tech_score \<ge> 67
        then (WAIT, ''Good technicals, but fundamental concerns'')
      else (AVOID, ''Poor fundamentals and/or technicals''))"


section \<open>Technical engine (\<open>technical_analysis.py\<close>)\<close>

subsection \<open>\<open>TechnicalAnalysis.analyze_rsi\<close>\<close>

datatype rsi_signal =
    RSI_IDEAL_ZONE | RSI_ACCEPTABLE_ZONE | RSI_OVERBOUGHT | RSI_OVERSOLD | RSI_NEUTRAL

datatype rsi_zone = Overbought | Oversold | Bullish | Bearish

record rsi_analysis =
  RSI :: pyfloat
  not_overbought :: bool
  above_50 :: bool
  in_sweet_spot :: bool
  zone :: rsi_zone
  rsi_score :: nat
  rsi_signal :: rsi_signal

text \<open>
  The argument is \<open>latest['RSI']\<close>, the RSI column of the last row. The signals stand for
  the strings \<open>"STRONG BUY - Ideal zone"\<close>, \<open>"BUY - Acceptable zone"\<close>,
  \<open>"WAIT - Overbought, pullback likely"\<close>,
  \<open>"CAUTION - Oversold, wait for bounce confirmation"\<close> and \<open>"NEUTRAL"\<close>.
\<close>

definition analyze_rsi :: "pyfloat \<Rightarrow> rsi_analysis" where
  "analyze_rsi rsi =
     (let not_overbought = fl_lt rsi (Fin 70);
          above_50 = fl_gt rsi (Fin 50);
          in_sweet_spot = (fl_lt (Fin 40) rsi \<and> fl_lt rsi (Fin 70));
          score = of_bool not_overbought + of_bool above_50 + of_bool in_sweet_spot;
          signal =
            (if fl_le (Fin 45) rsi \<and> fl_le rsi (Fin 60) then RSI_IDEAL_ZONE
             else if fl_le (Fin 40) rsi \<and> fl_le rsi (Fin 70) then RSI_ACCEPTABLE_ZONE
             else if fl_gt rsi (Fin 70) then RSI_OVERBOUGHT
             else if fl_lt rsi (Fin 40) then RSI_OVERSOLD
             else RSI_NEUTRAL);
          zone =
            (if fl_gt rsi (Fin 70) then Overbought
             else if fl_lt rsi (Fin 30) then Oversold
             else if fl_gt rsi (Fin 50) then Bullish
             else Bearish)
      in \<lparr> RSI = rsi, not_overbought = not_overbought, above_50 = above_50,
           in_sweet_spot = in_sweet_spot, zone = zone, rsi_score = score,
           rsi_signal = signal \<rparr>)"


subsection \<open>The scores of the other four indicator analyses\<close>

text \<open>
  Each \<open>analyze_*\<close> function reads the last row of the price table, to which pandas has
  added the indicator columns, and returns a dictionary with a \<open>score\<close>. The functions
  below are the computations of those scores; their arguments are the values the source
  reads from the table.

  \<open>analyze_moving_averages\<close>: \<open>score = sum([above_50, above_200, golden_cross])\<close>.
\<close>

definition analyze_moving_averages_score :: "pyfloat \<Rightarrow> pyfloat \<Rightarrow> pyfloat \<Rightarrow> nat" where
  "analyze_moving_averages_score current_price sma_50 sma_200 =
     (let above_50 = fl_gt current_price sma_50;
          above_200 = fl_gt current_price sma_200;
          golden_cross = fl_gt sma_50 sma_200
      in of_bool above_50 + of_bool above_200 + of_bool golden_cross)"

text \<open>\<open>analyze_macd\<close>: \<open>score = sum([bullish_crossover, above_zero, hist_positive])\<close>.\<close>

definition analyze_macd_score :: "pyfloat \<Rightarrow> pyfloat \<Rightarrow> pyfloat \<Rightarrow> nat" where
  "analyze_macd_score macd signal hist =
     (let bullish_crossover = fl_gt macd signal;
          above_zero = fl_gt macd (Fin 0);
          hist_positive = fl_gt hist (Fin 0)
      in of_bool bullish_crossover + of_bool above_zero + of_bool hist_positive)"

text \<open>
  \<open>analyze_vwma\<close>: \<open>score = sum([above_vwma, vwma_rising, volume_pattern_bullish])\<close>.
  \<open>vwma_last5\<close> is \<open>df['VWMA'].iloc[-5:]\<close> and \<open>n_rows\<close> is \<open>len(df)\<close>;
  \<open>n_up\<close>, \<open>n_down\<close> are the numbers of up and down days among the last ten rows and
  \<open>mean_vol_up\<close>, \<open>mean_vol_down\<close> the pandas means of their volumes.
\<close>

fun is_monotonic_increasing :: "pyfloat list \<Rightarrow> bool" where
  "is_monotonic_increasing (x # y # ys) = (fl_le x y \<and> is_monotonic_increasing (y # ys))"
| "is_monotonic_increasing _ = True"

definition analyze_vwma_score ::
  "pyfloat \<Rightarrow> pyfloat \<Rightarrow> pyfloat list \<Rightarrow> nat \<Rightarrow> nat \<Rightarrow> pyfloat \<Rightarrow> nat \<Rightarrow> pyfloat \<Rightarrow> nat" where
  "analyze_vwma_score current_price vwma vwma_last5 n_rows n_up mean_vol_up n_down mean_vol_down =
     (let above_vwma = fl_gt current_price vwma;
          vwma_rising = (if n_rows \<ge> 5 then is_monotonic_increasing vwma_last5 else False);
          avg_vol_up = (if n_up > 0 then mean_vol_up else Fin 0);
          avg_vol_down = (if n_down > 0 then mean_vol_down else Fin 0);
          volume_pattern_bullish = fl_gt avg_vol_up avg_vol_down
      in of_bool above_vwma + of_bool vwma_rising + of_bool volume_pattern_bullish)"

text \<open>
  \<open>analyze_support_resistance\<close>: two points at support, else one point within five per
  cent of it, plus one point when the resistance is more than five per cent away.
\<close>

definition analyze_support_resistance_score :: "pyfloat \<Rightarrow> pyfloat \<Rightarrow> pyfloat \<Rightarrow> nat" where
  "analyze_support_resistance_score current_price nearest_resistance nearest_support =
     (let dist_to_resistance =
            fl_mul (fl_div (fl_sub nearest_resistance current_price) current_price) (Fin 100);
          dist_to_support =
            fl_mul (fl_div (fl_sub current_price nearest_support) current_price) (Fin 100);
          at_support = fl_lt dist_to_support (Fin 2)
      in (if at_support then 2 else if fl_lt dist_to_support (Fin 5) then 1 else 0)
         + (if fl_gt dist_to_resistance (Fin 5) then 1 else 0))"

subsection \<open>\<open>TechnicalAnalysis.get_stock_data\<close>\<close>

text \<open>
  What \<open>stock.history(period=period)\<close> does inside \<open>get_stock_data\<close>: it raises, returns
  an empty table, or returns a table.
\<close>

datatype 'df history = History_Raises | History_Empty | History 'df

text \<open>
  The function has three exits: \<open>return None\<close> for an empty table, \<open>return df, stock\<close>, and
  \<open>return None, None\<close> from the exception handler. The ticker object is identified with
  its symbol.
\<close>

datatype 'df stock_data = Ret_None | Ret_Pair "'df option" "string option"

definition get_stock_data :: "'df history \<Rightarrow> string \<Rightarrow> 'df stock_data" where
  "get_stock_data fetched ticker =
     (case fetched of
        History_Raises \<Rightarrow> Ret_Pair None None
      | History_Empty \<Rightarrow> Ret_None
      | History df \<Rightarrow> Ret_Pair (Some df) (Some ticker))"

subsection \<open>The price table and the five analyses on it\<close>

text \<open>
  The price table of one ticker after the \<open>calculate_*\<close> steps: its number of rows
  \<open>len(df)\<close> and the values the five analyses read from its last rows. The indicator
  columns themselves (rolling and exponential means, pivot levels) are computed by pandas
  and are inputs here; on a table without rows the row values are not read. The table is a
  price table: it has the columns \<open>Close\<close>, \<open>High\<close>, \<open>Low\<close> and \<open>Volume\<close>.
\<close>

record indicators =
  n_rows :: nat
  Close :: pyfloat
  SMA_20 :: pyfloat
  SMA_50 :: pyfloat
  SMA_200 :: pyfloat
  MACD :: pyfloat
  MACD_signal :: pyfloat
  MACD_hist :: pyfloat
  RSI_latest :: pyfloat
  VWMA :: pyfloat
  VWMA_last5 :: "pyfloat list"
  n_up_days :: nat
  mean_volume_up :: pyfloat
  n_down_days :: nat
  mean_volume_down :: pyfloat
  nearest_resistance :: pyfloat
  nearest_support :: pyfloat

text \<open>
  Every \<open>analyze_*\<close> function starts with \<open>if df is None or df.empty: return None\<close>; the
  result \<open>None\<close> is \<open>None\<close> here, a raise is \<open>Inl\<close>.

  \<open>analyze_moving_averages\<close>: \<open>dist_20\<close> is \<open>None\<close> when the 20-day average is NaN, and the
  chained comparison \<open>-2 <= dist_20 <= 5\<close>, reached when the score is 3, then raises
  \<open>TypeError\<close>. The result is the score and the entry signal.
\<close>

datatype ma_signal =
    MA_IDEAL_PULLBACK | MA_EXTENDED | MA_AT_SUPPORT | MA_PARTIAL_TREND | MA_AVOID

definition analyze_moving_averages :: "indicators \<Rightarrow> error + (nat \<times> ma_signal) option" where
  "analyze_moving_averages df =
     (if n_rows df = 0 then Inr None
      else
        (let current_price = Close df;
             dist_20 = (if SMA_20 df \<noteq> NaN
                        then Some (fl_mul (fl_div (fl_sub current_price (SMA_20 df)) (SMA_20 df))
                                     (Fin 100))
                        else None);
             score = analyze_moving_averages_score current_price (SMA_50 df) (SMA_200 df)
         in if score = 3 then
              (case dist_20 of
                 None \<Rightarrow> Inl TypeError
               | Some d \<Rightarrow>
                   Inr (Some (score,
                     if fl_le (Fin (- 2)) d \<and> fl_le d (Fin 5) then MA_IDEAL_PULLBACK
                     else if fl_gt d (Fin 5) then MA_EXTENDED
                     else MA_AT_SUPPORT)))
            else if score = 2 then Inr (Some (score, MA_PARTIAL_TREND))
            else Inr (Some (score, MA_AVOID))))"

text \<open>
  \<open>analyze_macd\<close> reads the row before the last with \<open>prev = df.iloc[-2]\<close>, which raises
  \<open>IndexError\<close> on a table of one row. The result is the score.
\<close>

definition analyze_macd :: "indicators \<Rightarrow> error + nat option" where
  "analyze_macd df =
     (if n_rows df = 0 then Inr None
      else if n_rows df < 2 then Inl IndexError
      else Inr (Some (analyze_macd_score (MACD df) (MACD_signal df) (MACD_hist df))))"

text \<open>The other three analyses raise nothing; the results are the scores.\<close>

definition analyze_rsi_table :: "indicators \<Rightarrow> nat option" where
  "analyze_rsi_table df =
     (if n_rows df = 0 then None else Some (rsi_score (analyze_rsi (RSI_latest df))))"

definition analyze_vwma :: "indicators \<Rightarrow> nat option" where
  "analyze_vwma df =
     (if n_rows df = 0 then None
      else Some (analyze_vwma_score (Close df) (VWMA df) (VWMA_last5 df) (n_rows df)
                   (n_up_days df) (mean_volume_up df) (n_down_days df) (mean_volume_down df)))"

definition analyze_support_resistance :: "indicators \<Rightarrow> nat option" where
  "analyze_support_resistance df =
     (if n_rows df = 0 then None
      else Some (analyze_support_resistance_score (Close df) (nearest_resistance df)
                   (nearest_support df)))"

subsection \<open>\<open>TechnicalAnalysis.analyze_market_trend\<close>\<close>

text \<open>
  The market context fetches the benchmark with \<open>spy_data,_ = await
  self.get_stock_data("SPY", ...)\<close>. Unpacking \<open>None\<close> raises \<open>TypeError\<close>; on
  \<open>(None, None)\<close> the function returns \<open>None\<close> (\<open>if spy_data is None\<close>); otherwise it returns
  the pair of its analysis and the benchmark table, of which the table is kept here.
\<close>

definition analyze_market_trend :: "'spy history \<Rightarrow> error + 'spy option" where
  "analyze_market_trend spy_fetched =
     (case get_stock_data spy_fetched ''SPY'' of
        Ret_None \<Rightarrow> Inl TypeError
      | Ret_Pair None stock \<Rightarrow> Inr None
      | Ret_Pair (Some spy_data) stock \<Rightarrow> Inr (Some spy_data))"

subsection \<open>\<open>TechnicalAnalysis.complete_technical_analysis\<close>\<close>

datatype technical_signal = TECH_STRONG_BUY | TECH_WAIT | TECH_AVOID

record technical_result =
  ma_score :: nat
  macd_score :: nat
  rsi_score_of :: nat
  vwma_score :: nat
  sr_score :: nat
  total_score :: nat
  max_score :: nat
  score_percentage :: real
  overall_technical_signal :: technical_signal
  action :: string

text \<open>
  The end of the function, from \<open>total_score = ...\<close> to the result dictionary: the total
  of the five scores, the percentage and the signal. The percentage is a quotient of small
  integers; as a double it lies on the same side of 67 and of 50 as the exact value.
\<close>

definition score_summary :: "nat \<Rightarrow> nat \<Rightarrow> nat \<Rightarrow> nat \<Rightarrow> nat \<Rightarrow> technical_result" where
  "score_summary ma macd rsi vwma sr =
     (let total = ma + macd + rsi + vwma + sr;
          max_sc = 15;
          score_pct = (real total / real max_sc) * 100;
          sig = (if score_pct \<ge> 67 then (TECH_STRONG_BUY, ''Enter position'')
                 else if score_pct \<ge> 50 then (TECH_WAIT, ''Need more confirmation'')
                 else (TECH_AVOID, ''Poor setup''))
      in \<lparr> ma_score = ma, macd_score = macd, rsi_score_of = rsi, vwma_score = vwma,
           sr_score = sr, total_score = total, max_score = max_sc,
           score_percentage = score_pct, overall_technical_signal = fst sig,
           action = snd sig \<rparr>)"

text \<open>
  The function in the order of the source: the five analyses, the market context
  (\<open>market_analysis, spy_df = await self.analyze_market_trend()\<close>, where unpacking \<open>None\<close>
  raises \<open>TypeError\<close>), then the total, where subscripting a \<open>None\<close> analysis raises
  \<open>TypeError\<close>. The first argument is what the history fetch of the benchmark does.
\<close>

definition complete_technical_analysis ::
  "'spy history \<Rightarrow> indicators \<Rightarrow> error + technical_result" where
  "complete_technical_analysis spy_fetched df =
     (case analyze_moving_averages df of
        Inl e \<Rightarrow> Inl e
      | Inr ma_analysis \<Rightarrow>
     (case analyze_macd df of
        Inl e \<Rightarrow> Inl e
      | Inr macd_analysis \<Rightarrow>
     (let rsi_analysis = analyze_rsi_table df;
          vwma_analysis = analyze_vwma df;
          sr_analysis = analyze_support_resistance df
      in case analyze_market_trend spy_fetched of
           Inl e \<Rightarrow> Inl e
         | Inr None \<Rightarrow> Inl TypeError
         | Inr (Some spy_df) \<Rightarrow>
     (case (ma_analysis, macd_analysis, rsi_analysis, vwma_analysis, sr_analysis) of
        (Some (ma, ma_sig), Some macd, Some rsi, Some vwma, Some sr) \<Rightarrow>
          Inr (score_summary ma macd rsi vwma sr)
      | _ \<Rightarrow> Inl TypeError))))"

text \<open>
  A table of 250 rows in an uptrend with an overbought RSI and the price just under its
  resistance. The sub-scores are 3, 3, 1, 3 and 0.
\<close>

definition extended_uptrend :: indicators where
  "extended_uptrend =
     \<lparr> n_rows = 250, Close = Fin 110, SMA_20 = Fin 108, SMA_50 = Fin 100, SMA_200 = Fin 90,
       MACD = Fin 2, MACD_signal = Fin 1, MACD_hist = Fin 1, RSI_latest = Fin 75,
       VWMA = Fin 105, VWMA_last5 = [Fin 101, Fin 102, Fin 103, Fin 104, Fin 105],
       n_up_days = 6, mean_volume_up = Fin 2000, n_down_days = 3, mean_volume_down = Fin 1000,
       nearest_resistance = Fin 112, nearest_support = Fin 100 \<rparr>"


section \<open>Position sizing (\<open>TechnicalAnalysis.calculate_position_size\<close>)\<close>

text \<open>
  The arguments are doubles. An arithmetic operation on two finite doubles returns the
  exact result rounded to a double, or an infinity on overflow. The rounding is the
  parameter \<open>rnd\<close> of the operations below; nothing is assumed about it, so every fact
  proved for all \<open>rnd\<close> holds for the rounding of the machine. With an infinite or NaN
  operand the operations are the unrounded ones.
\<close>

definition r_sub :: "(real \<Rightarrow> pyfloat) \<Rightarrow> pyfloat \<Rightarrow> pyfloat \<Rightarrow> pyfloat" where
  "r_sub rnd a b = (case (a, b) of (Fin x, Fin y) \<Rightarrow> rnd (x - y) | _ \<Rightarrow> fl_sub a b)"

definition r_mul :: "(real \<Rightarrow> pyfloat) \<Rightarrow> pyfloat \<Rightarrow> pyfloat \<Rightarrow> pyfloat" where
  "r_mul rnd a b = (case (a, b) of (Fin x, Fin y) \<Rightarrow> rnd (x * y) | _ \<Rightarrow> fl_mul a b)"

definition r_div :: "(real \<Rightarrow> pyfloat) \<Rightarrow> pyfloat \<Rightarrow> pyfloat \<Rightarrow> pyfloat" where
  "r_div rnd a b =
     (case (a, b) of
        (Fin x, Fin y) \<Rightarrow> (if y = 0 then fl_div a b else rnd (x / y))
      | _ \<Rightarrow> fl_div a b)"

text \<open>Python's \<open>/\<close> on floats raises \<open>ZeroDivisionError\<close> for a zero divisor.\<close>

definition py_truediv :: "(real \<Rightarrow> pyfloat) \<Rightarrow> pyfloat \<Rightarrow> pyfloat \<Rightarrow> error + pyfloat" where
  "py_truediv rnd a b = (if b = Fin 0 then Inl ZeroDivisionError else Inr (r_div rnd a b))"

text \<open>
  \<open>int(x)\<close> on a float truncates towards zero; it raises \<open>ValueError\<close> for NaN and
  \<open>OverflowError\<close> for an infinity.
\<close>

definition py_int :: "real \<Rightarrow> int" where
  "py_int x = (if 0 \<le> x then \<lfloor>x\<rfloor> else \<lceil>x\<rceil>)"

definition py_int_of :: "pyfloat \<Rightarrow> error + int" where
  "py_int_of x =
     (case x of
        Fin r \<Rightarrow> Inr (py_int r)
      | NaN \<Rightarrow> Inl ValueError
      | PInf \<Rightarrow> Inl OverflowError
      | NInf \<Rightarrow> Inl OverflowError)"

record position_size =
  shares :: int
  position_value :: pyfloat
  position_percent :: pyfloat
  risk_amount :: pyfloat
  risk_percent :: pyfloat
  risk_per_share :: pyfloat
  risk_reward_ratio :: "pyfloat option"

text \<open>
  The function returns one of two dictionaries: the error dictionary with the keys
  \<open>error\<close>, \<open>shares\<close> and \<open>position_value\<close>, or the full position.
\<close>

datatype position_result = Position_Error string int int | Position position_size

fun result_shares :: "position_result \<Rightarrow> int" where
  "result_shares (Position_Error msg sh pv) = sh"
| "result_shares (Position p) = shares p"

text \<open>
  The float quotient \<open>risk_amount / risk_per_share\<close> that \<open>int\<close> is applied to.
\<close>

definition risk_quotient ::
  "(real \<Rightarrow> pyfloat) \<Rightarrow> pyfloat \<Rightarrow> pyfloat \<Rightarrow> pyfloat \<Rightarrow> pyfloat \<Rightarrow> pyfloat" where
  "risk_quotient rnd portfolio_value risk_pct entry_price stop_loss_price =
     r_div rnd (r_mul rnd portfolio_value (r_div rnd risk_pct (Fin 100)))
       (r_sub rnd entry_price stop_loss_price)"

text \<open>
  The function, statement by statement. The division by the literal 100 cannot raise;
  the divisions by \<open>risk_per_share\<close> and by \<open>portfolio_value\<close> are Python divisions.
\<close>

definition calculate_position_size ::
  "(real \<Rightarrow> pyfloat) \<Rightarrow> pyfloat \<Rightarrow> pyfloat \<Rightarrow> pyfloat \<Rightarrow> pyfloat \<Rightarrow> error + position_result" where
  "calculate_position_size rnd portfolio_value risk_pct entry_price stop_loss_price =
     (let risk_amt = r_mul rnd portfolio_value (r_div rnd risk_pct (Fin 100));
          per_share = r_sub rnd entry_price stop_loss_price
      in if fl_le per_share (Fin 0)
         then Inr (Position_Error ''Stop loss must be below entry price'' 0 0)
         else
           (case py_truediv rnd risk_amt per_share of
              Inl e \<Rightarrow> Inl e
            | Inr float_quotient \<Rightarrow>
           (case py_int_of float_quotient of
              Inl e \<Rightarrow> Inl e
            | Inr n_shares \<Rightarrow>
           (let pos_value = r_mul rnd (Fin (real_of_int n_shares)) entry_price
            in case py_truediv rnd pos_value portfolio_value of
                 Inl e \<Rightarrow> Inl e
               | Inr value_share \<Rightarrow>
           (let pos_percent = r_mul rnd value_share (Fin 100);
                actual_risk = r_mul rnd (Fin (real_of_int n_shares)) per_share
            in case py_truediv rnd actual_risk portfolio_value of
                 Inl e \<Rightarrow> Inl e
               | Inr risk_share \<Rightarrow>
                   Inr (Position \<lparr> shares = n_shares, position_value = pos_value,
                         position_percent = pos_percent, risk_amount = actual_risk,
                         risk_percent = r_mul rnd risk_share (Fin 100),
                         risk_per_share = per_share, risk_reward_ratio = None \<rparr>))))))"


section \<open>Fundamentals engine (\<open>fundamental_analysis.py\<close>)\<close>

subsection \<open>\<open>FundamentalAnalysis.calculate_cagr\<close>\<close>

text \<open>
  Start and end value are finite numbers, \<open>periods\<close> is an integer. For a positive base
  Python's \<open>**\<close> with a float exponent is the real power \<open>powr\<close>.
\<close>

definition calculate_cagr :: "real \<Rightarrow> real \<Rightarrow> int \<Rightarrow> pyfloat" where
  "calculate_cagr start_value end_value periods =
     (if start_value \<le> 0 \<or> end_value \<le> 0 \<or> periods \<le> 0 then NaN
      else Fin (((end_value / start_value) powr (1 / real_of_int periods) - 1) * 100))"


subsection \<open>\<open>FundamentalAnalysis.null_check\<close> and \<open>FundamentalAnalysis.get_means\<close>\<close>

text \<open>
  A list entry is \<open>None\<close> or a float. \<open>null_check\<close> is the conjunction of three tests:
  \<open>c != np.nan\<close> (the IEEE inequality, which holds for every float, NaN included, and for
  \<open>None\<close>), \<open>c is not None\<close>, and \<open>pd.notnull(c)\<close> (false for \<open>None\<close> and NaN, true for
  every other float, the infinities included).
\<close>

fun fl_ne :: "pyfloat \<Rightarrow> pyfloat \<Rightarrow> bool" where
  "fl_ne NaN _ = True"
| "fl_ne _ NaN = True"
| "fl_ne a b = (a \<noteq> b)"

definition pd_notnull :: "pyfloat option \<Rightarrow> bool" where
  "pd_notnull c = (case c of None \<Rightarrow> False | Some x \<Rightarrow> x \<noteq> NaN)"

definition null_check :: "pyfloat option \<Rightarrow> bool" where
  "null_check c =
     ((case c of None \<Rightarrow> True | Some x \<Rightarrow> fl_ne x NaN) \<and> c \<noteq> None \<and> pd_notnull c)"

fun values_of :: "pyfloat option list \<Rightarrow> pyfloat list" where
  "values_of [] = []"
| "values_of (None # cs) = values_of cs"
| "values_of (Some x # cs) = x # values_of cs"

text \<open>\<open>np.mean\<close> of a list of floats: the sum over the length, NaN for the empty list.\<close>

definition np_mean :: "pyfloat list \<Rightarrow> pyfloat" where
  "np_mean xs = fl_div (foldl fl_add (Fin 0) xs) (Fin (real (length xs)))"

definition get_means :: "pyfloat option list \<Rightarrow> int \<Rightarrow> pyfloat" where
  "get_means num_list min_n =
     (let num_list' = filter null_check num_list;
          mean_cal = np_mean (values_of num_list')
      in if null_check (Some mean_cal) \<and> int (length num_list') \<ge> min_n
         then mean_cal else Fin (- 1))"

subsection \<open>\<open>FundamentalAnalysis.compute_yfinance_metrics\<close>: tables and lookups\<close>

text \<open>
  A financial-statement table after \<open>transpose\<close>, \<open>reset_index\<close> and \<open>sort_values\<close>: one row
  per period, oldest first, and one column of numbers per named line item.
\<close>

record frame =
  n_periods :: nat
  columns :: "(string \<times> pyfloat list) list"

text \<open>\<open>DataFrame.empty\<close>: no rows or no columns.\<close>

definition df_empty :: "frame \<Rightarrow> bool" where
  "df_empty df = (n_periods df = 0 \<or> columns df = [])"

text \<open>\<open>df.get(name, default)\<close>\<close>

definition df_get :: "frame \<Rightarrow> string \<Rightarrow> pyfloat list \<Rightarrow> pyfloat list" where
  "df_get df name dflt = (case map_of (columns df) name of Some col \<Rightarrow> col | None \<Rightarrow> dflt)"

text \<open>\<open>pd.Series([0]*num_years)\<close>\<close>

definition zeros :: "nat \<Rightarrow> pyfloat list" where
  "zeros num_years = replicate num_years (Fin 0)"

text \<open>The slice \<open>series[-k:]\<close>; \<open>series[-0:]\<close> is the whole series.\<close>

definition last_n :: "nat \<Rightarrow> 'a list \<Rightarrow> 'a list" where
  "last_n k xs = (if k = 0 then xs else drop (length xs - k) xs)"

text \<open>
  Positional indexing, \<open>series.iloc[i]\<close> and \<open>a_list[i]\<close>: a negative index counts from the
  end, an index outside the list raises \<open>IndexError\<close>.
\<close>

definition py_index :: "'a list \<Rightarrow> int \<Rightarrow> error + 'a" where
  "py_index xs i =
     (let len = int (length xs);
          pos = (if i < 0 then len + i else i)
      in if pos < 0 \<or> len \<le> pos then Inl IndexError else Inr (xs ! nat pos))"

subsection \<open>\<open>compute_yfinance_metrics\<close>: the ROA and ROE block\<close>

text \<open>
  \<open>(series.iloc[i] + series.iloc[i-1]) / 2 if i > 0 else series.iloc[i]\<close>, the average of a
  balance-sheet item over the period and the one before.
\<close>

definition avg_with_previous :: "pyfloat list \<Rightarrow> nat \<Rightarrow> error + pyfloat" where
  "avg_with_previous series i =
     (if i > 0 then
        (case py_index series (int i) of
           Inl e \<Rightarrow> Inl e
         | Inr cur \<Rightarrow>
             (case py_index series (int i - 1) of
                Inl e \<Rightarrow> Inl e
              | Inr prev \<Rightarrow> Inr (fl_div (fl_add cur prev) (Fin 2))))
      else py_index series (int i))"

text \<open>
  The loop \<open>for i in range(years)\<close> of the block, with its two accumulators. A value is
  appended only when its denominator is not zero.
\<close>

fun roa_roe_loop ::
  "pyfloat list \<Rightarrow> pyfloat list \<Rightarrow> pyfloat list \<Rightarrow> nat list \<Rightarrow> pyfloat list \<Rightarrow> pyfloat list
    \<Rightarrow> error + (pyfloat list \<times> pyfloat list)" where
  "roa_roe_loop net_income_series total_assets_series equity_series [] roa_values roe_values =
     Inr (roa_values, roe_values)"
| "roa_roe_loop net_income_series total_assets_series equity_series (i # rest) roa_values roe_values =
     (case py_index net_income_series (int i) of
        Inl e \<Rightarrow> Inl e
      | Inr v \<Rightarrow>
          (let net_income = (if v = NaN then Fin 0 else v) in
           case avg_with_previous total_assets_series i of
             Inl e \<Rightarrow> Inl e
           | Inr avg_assets \<Rightarrow>
               (let roa_values' =
                      (if avg_assets \<noteq> Fin 0
                       then roa_values @ [fl_mul (fl_div net_income avg_assets) (Fin 100)]
                       else roa_values) in
                case avg_with_previous equity_series i of
                  Inl e \<Rightarrow> Inl e
                | Inr avg_equity \<Rightarrow>
                    (let roe_values' =
                           (if avg_equity \<noteq> Fin 0
                            then roe_values @ [fl_mul (fl_div net_income avg_equity) (Fin 100)]
                            else roe_values)
                     in roa_roe_loop net_income_series total_assets_series equity_series rest
                          roa_values' roe_values'))))"

text \<open>
  The four entries the block writes: \<open>'3-5yr Average ROA (%)'\<close>, \<open>'3-5yr Average ROE (%)'\<close>,
  \<open>'ROE'\<close> and \<open>'ROA'\<close>.
\<close>

record roa_roe =
  average_ROA :: pyfloat
  average_ROE :: pyfloat
  ROE :: pyfloat
  ROA :: pyfloat

definition roa_roe_metrics :: "frame \<Rightarrow> frame \<Rightarrow> error + roa_roe" where
  "roa_roe_metrics income balance =
     (let num_years = n_periods income;
          net_income_series = last_n (min 5 num_years) (df_get income ''Net Income'' (zeros num_years));
          total_assets_series = last_n (min 5 num_years) (df_get balance ''Total Assets'' (zeros num_years));
          equity_series = last_n (min 5 num_years) (df_get balance ''Stockholders Equity'' (zeros num_years));
          years = min 4 num_years
      in case roa_roe_loop net_income_series total_assets_series equity_series [0..<years] [] [] of
           Inl e \<Rightarrow> Inl e
         | Inr (roa_values, roe_values) \<Rightarrow>
             (let roa_values' = filter (\<lambda>x. x \<noteq> NaN) roa_values;
                  roe_values' = filter (\<lambda>x. x \<noteq> NaN) roe_values;
                  avg_roa = get_means (map Some roa_values') 2;
                  avg_roe = get_means (map Some roe_values') 2
              in case py_index roe_values' (- 1) of
                   Inl e \<Rightarrow> Inl e
                 | Inr roe \<Rightarrow>
                     (case py_index roa_values' (- 1) of
                        Inl e \<Rightarrow> Inl e
                      | Inr roa \<Rightarrow>
                          Inr \<lparr> average_ROA = avg_roa, average_ROE = avg_roe,
                                ROE = roe, ROA = roa \<rparr>)))"

text \<open>
  The function as a whole. It returns the string \<open>"Error fetching data for this ticker"\<close>
  when one of the three tables is empty. Of its metric computations the ROA and ROE block
  is the one modelled: the statements before it and after it fill other keys and can only
  add raises of their own. So \<open>Inl\<close> here means that the source raises, and
  \<open>Inr (Metrics m)\<close> that this block went through with the values \<open>m\<close>.
\<close>

datatype metrics_result = Error_Fetching_Data | Metrics roa_roe

definition compute_yfinance_metrics :: "frame \<Rightarrow> frame \<Rightarrow> frame \<Rightarrow> error + metrics_result" where
  "compute_yfinance_metrics income balance cashflow =
     (if df_empty income \<or> df_empty balance \<or> df_empty cashflow then Inr Error_Fetching_Data
      else (case roa_roe_metrics income balance of
              Inl e \<Rightarrow> Inl e
            | Inr m \<Rightarrow> Inr (Metrics m)))"

text \<open>
  Two periods of statements for one ticker. The first balance sheet has no
  \<open>Stockholders Equity\<close> line; the second has one.
\<close>

definition income_2y :: frame where
  "income_2y = \<lparr> n_periods = 2,
     columns = [(''Net Income'', [Fin 100, Fin 120]), (''Total Revenue'', [Fin 1000, Fin 1100])] \<rparr>"

definition balance_no_equity :: frame where
  "balance_no_equity = \<lparr> n_periods = 2,
     columns = [(''Total Assets'', [Fin 2000, Fin 2100])] \<rparr>"

definition balance_with_equity :: frame where
  "balance_with_equity = \<lparr> n_periods = 2,
     columns = [(''Total Assets'', [Fin 2000, Fin 2100]),
                (''Stockholders Equity'', [Fin 800, Fin 1200])] \<rparr>"

definition cashflow_2y :: frame where
  "cashflow_2y = \<lparr> n_periods = 2,
     columns = [(''Operating Cash Flow'', [Fin 150, Fin 160])] \<rparr>"


section \<open>Batch orchestrator (\<open>combined.py\<close>)\<close>

text \<open>
  The values of a result dictionary, and the dictionary itself.
\<close>

datatype pyval = VStr string | VNum pyfloat | VBool bool | VDict "(string \<times> pyval) list"

type_synonym pydict = "string \<rightharpoonup> pyval"

text \<open>
  The world outside the orchestrator, per ticker. \<open>history\<close> is what
  \<open>stock.history(period=period)\<close> does inside \<open>get_stock_data\<close>. \<open>fundamentals\<close> is what
  \<open>f_an.compute_yfinance_metrics(stock)\<close> does for the ticker object of that symbol: it
  raises, or returns its error string or a metrics dictionary. \<open>technicals\<close> is what
  \<open>t_an.complete_technical_analysis(df)\<close> does on a table: it raises or returns a
  dictionary.
\<close>

datatype 'a outcome = Raises string | Returns 'a

datatype fund_value = Fund_Error_String | Fund_Dict pydict

record 'df provider =
  history :: "string \<Rightarrow> 'df history"
  fundamentals :: "string \<Rightarrow> fund_value outcome"
  technicals :: "'df \<Rightarrow> pydict outcome"

text \<open>
  The two engine calls of \<open>analyze_stock\<close>. On \<open>None\<close> both raise \<open>AttributeError\<close>
  (\<open>stock.financials\<close>, \<open>df.copy()\<close>).
\<close>

definition run_fundamentals :: "'df provider \<Rightarrow> string option \<Rightarrow> fund_value outcome" where
  "run_fundamentals env stock =
     (case stock of
        None \<Rightarrow> Raises ''AttributeError''
      | Some symbol \<Rightarrow> fundamentals env symbol)"

definition run_technicals :: "'df provider \<Rightarrow> 'df option \<Rightarrow> pydict outcome" where
  "run_technicals env df =
     (case df of
        None \<Rightarrow> Raises ''AttributeError''
      | Some table \<Rightarrow> technicals env table)"

definition error_entry :: "string \<Rightarrow> string \<Rightarrow> pydict" where
  "error_entry ticker msg = [''ticker'' \<mapsto> VStr ticker, ''error'' \<mapsto> VStr msg]"

text \<open>
  \<open>analyze_stock\<close>. Unpacking \<open>None\<close> into \<open>df, stock\<close> raises \<open>TypeError\<close>, which the outer
  handler turns into the error entry. The two engines run under
  \<open>asyncio.gather(..., return_exceptions=True)\<close>; an exception of either is replaced by the
  empty dictionary. Unpacking the error string of the fundamentals engine with \<open>**fun\<close>
  raises \<open>TypeError\<close> again. The function itself raises no \<open>Exception\<close>.
\<close>

definition analyze_stock :: "'df provider \<Rightarrow> string \<Rightarrow> pydict" where
  "analyze_stock env ticker =
     (case get_stock_data (history env ticker) ticker of
        Ret_None \<Rightarrow> error_entry ticker ''cannot unpack non-iterable NoneType object''
      | Ret_Pair df stock \<Rightarrow>
          (let fund = (case run_fundamentals env stock of
                         Raises msg \<Rightarrow> Fund_Dict Map.empty
                       | Returns v \<Rightarrow> v);
               tech = (case run_technicals env df of
                         Raises msg \<Rightarrow> Map.empty
                       | Returns d \<Rightarrow> d)
           in case fund of
                Fund_Error_String \<Rightarrow> error_entry ticker ''str object is not a mapping''
              | Fund_Dict f \<Rightarrow> (f ++ tech)(''ticker'' \<mapsto> VStr ticker)))"

text \<open>\<open>range(0, n, step)\<close>: \<open>ValueError\<close> for step 0, empty for a negative step.\<close>

definition range_step :: "nat \<Rightarrow> int \<Rightarrow> error + nat list" where
  "range_step n step =
     (if step = 0 then Inl ValueError
      else if step < 0 then Inr []
      else Inr (map (\<lambda>k. k * nat step) [0..<(n + nat step - 1) div nat step]))"

text \<open>
  The loop \<open>for ticker, result in zip(batch, batch_results)\<close>: an exception among the
  gathered results becomes an error entry, anything else is stored as it is.
  \<open>asyncio.gather\<close> returns the results in the order of the batch, so the concurrent
  run of a batch shows in the mapping only through the outcome of each ticker.
\<close>

definition store_result :: "(string \<rightharpoonup> pydict) \<Rightarrow> string \<times> pydict outcome \<Rightarrow> (string \<rightharpoonup> pydict)" where
  "store_result results tr =
     (case tr of
        (ticker, Raises msg) \<Rightarrow> results(ticker \<mapsto> error_entry ticker msg)
      | (ticker, Returns entry) \<Rightarrow> results(ticker \<mapsto> entry))"

definition process_batch :: "'df provider \<Rightarrow> string list \<Rightarrow> nat \<Rightarrow> (string \<rightharpoonup> pydict) \<Rightarrow> nat \<Rightarrow> (string \<rightharpoonup> pydict)" where
  "process_batch env tickers batch_size results i =
     (let batch = take batch_size (drop i tickers);
          batch_results = map (\<lambda>ticker. Returns (analyze_stock env ticker)) batch
      in foldl store_result results (zip batch batch_results))"

definition analyze_multiple_stocks ::
  "'df provider \<Rightarrow> string list \<Rightarrow> int \<Rightarrow> error + (string \<rightharpoonup> pydict)" where
  "analyze_multiple_stocks env tickers batch_size =
     (case range_step (length tickers) batch_size of
        Inl e \<Rightarrow> Inl e
      | Inr starts \<Rightarrow>
          Inr (foldl (process_batch env tickers (nat batch_size)) Map.empty starts))"

text \<open>
  Two providers for the tickers AAA, BBB and CCC. Both engines succeed on every ticker.
  In the first the history fetch of BBB raises; in the second it returns an empty table.
\<close>

definition provider_fetch_raises :: "string provider" where
  "provider_fetch_raises =
     \<lparr> history = (\<lambda>t. if t = ''BBB'' then History_Raises else History t),
       fundamentals = (\<lambda>t. Returns (Fund_Dict [''ROE'' \<mapsto> VNum (Fin 18)])),
       technicals = (\<lambda>df. Returns [''total_score'' \<mapsto> VNum (Fin 11)]) \<rparr>"

definition provider_fetch_empty :: "string provider" where
  "provider_fetch_empty =
     \<lparr> history = (\<lambda>t. if t = ''BBB'' then History_Empty else History t),
       fundamentals = (\<lambda>t. Returns (Fund_Dict [''ROE'' \<mapsto> VNum (Fin 18)])),
       technicals = (\<lambda>df. Returns [''total_score'' \<mapsto> VNum (Fin 11)]) \<rparr>"


section \<open>Properties\<close>

subsection \<open>Comparison facts\<close>

lemma fl_gt_Fin [simp]: "fl_gt (Fin a) (Fin b) = (b < a)"
  by (simp add: fl_gt_def)

subsection \<open>Fundamental score\<close>

lemma profitability_points_le: "profitability_points fr \<le> 30"
  by (simp add: profitability_points_def)

lemma growth_points_le: "growth_points fr \<le> 20"
  by (simp add: growth_points_def)

lemma health_points_le: "health_points fr \<le> 25"
  by (simp add: health_points_def)

lemma valuation_points_le: "valuation_points fr \<le> 15"
  by (simp add: valuation_points_def Let_def)

lemma cash_flow_points_le: "cash_flow_points fr \<le> 10"
  by (simp add: cash_flow_points_def)

lemma fundamental_points_le: "fundamental_points fr \<le> 100"
  using profitability_points_le [of fr] growth_points_le [of fr] health_points_le [of fr]
    valuation_points_le [of fr] cash_flow_points_le [of fr]
  by (simp add: fundamental_points_def)

text \<open>
  Claim C10. Whatever the fundamentals dictionary holds (entries present, missing, NaN or
  infinite), the accumulated maximum \<open>max_score\<close> is 30 + 20 + 25 + 15 + 10 = 100 points,
  every bucket stays within its allocation, and the returned score lies in the closed
  interval from 0 to 100.
\<close>

theorem fundamental_score_range:
  "fundamental_max_score = 100
   \<and> profitability_points fund_result \<le> 30 \<and> growth_points fund_result \<le> 20
   \<and> health_points fund_result \<le> 25 \<and> valuation_points fund_result \<le> 15
   \<and> cash_flow_points fund_result \<le> 10
   \<and> calculate_fundamental_score fund_result = real (fundamental_points fund_result)
   \<and> 0 \<le> calculate_fundamental_score fund_result
   \<and> calculate_fundamental_score fund_result \<le> 100"
proof -
  have m: "fundamental_max_score = 100"
    by (simp add: fundamental_max_score_def)
  have s: "calculate_fundamental_score fund_result = real (fundamental_points fund_result)"
    by (simp add: calculate_fundamental_score_def m)
  have u: "real (fundamental_points fund_result) \<le> 100"
    using fundamental_points_le [of fund_result] by simp
  show ?thesis
    using m s u profitability_points_le growth_points_le health_points_le
      valuation_points_le cash_flow_points_le
    by simp
qed

lemma clean_lookups:
  "dict_get clean_fundamentals ''ROE'' d = Fin 18"
  "dict_get clean_fundamentals ''ROCE'' d = Fin 16"
  "dict_get clean_fundamentals ''NPM'' d = Fin 12"
  "dict_get clean_fundamentals ''Earnings Growth 5yr cagr'' d = Fin 4"
  "dict_get clean_fundamentals ''Sales Growth 5yr cagr'' d = Fin 4"
  "dict_get clean_fundamentals ''d/e_market'' d = Fin (3/10)"
  "dict_get clean_fundamentals ''Interest coverage'' d = Fin 5"
  "dict_get clean_fundamentals ''CFO'' d = Fin 1000"
  "dict_get clean_fundamentals ''p/e'' d = Fin 12"
  "dict_get clean_fundamentals ''EY'' d = Fin 8"
  "dict_get clean_fundamentals ''cCFO/cPAT'' d = Fin (12/10)"
  by (simp_all add: dict_get_def clean_fundamentals_def)

lemma growing_lookups:
  "growing_fundamentals ''ROE'' = Some (Fin 18)"
  "growing_fundamentals ''ROCE'' = Some (Fin 16)"
  "growing_fundamentals ''NPM'' = Some (Fin 12)"
  "growing_fundamentals ''Earnings Growth 5yr cagr'' = Some (Fin 20)"
  "growing_fundamentals ''Sales Growth 5yr cagr'' = Some (Fin 18)"
  "growing_fundamentals ''d/e_market'' = Some (Fin (3/10))"
  "growing_fundamentals ''Interest coverage'' = Some (Fin 5)"
  "growing_fundamentals ''CFO'' = Some (Fin 1000)"
  "growing_fundamentals ''p/e'' = Some (Fin 12)"
  "growing_fundamentals ''EY'' = Some (Fin 8)"
  "growing_fundamentals ''cCFO/cPAT'' = Some (Fin (12/10))"
  by (simp_all add: growing_fundamentals_def)

text \<open>
  Claim C5, as amended. A fundamentals result with ROE 18, ROCE 16, NPM 12, d/e_market 0.3,
  Interest coverage 5, P/E 12, EY 8 and cCFO/cPAT 1.2 scores 100 out of 100, every bucket
  at its maximum, provided that in addition both five-year growth rates (earnings and
  sales CAGR) exceed 15 per cent and the operating cash flow CFO is positive.
\<close>

theorem fundamental_score_all_buckets_max:
  assumes "fund_result ''ROE'' = Some (Fin 18)"
    and "fund_result ''ROCE'' = Some (Fin 16)"
    and "fund_result ''NPM'' = Some (Fin 12)"
    and "fund_result ''d/e_market'' = Some (Fin (3/10))"
    and "fund_result ''Interest coverage'' = Some (Fin 5)"
    and "fund_result ''p/e'' = Some (Fin 12)"
    and "fund_result ''EY'' = Some (Fin 8)"
    and "fund_result ''cCFO/cPAT'' = Some (Fin (12/10))"
    and "fl_gt (dict_get fund_result ''Earnings Growth 5yr cagr'' (Fin 0)) (Fin 15)"
    and "fl_gt (dict_get fund_result ''Sales Growth 5yr cagr'' (Fin 0)) (Fin 15)"
    and "fl_gt (dict_get fund_result ''CFO'' (Fin 0)) (Fin 0)"
  shows "calculate_fundamental_score fund_result = 100
    \<and> profitability_points fund_result = 30 \<and> growth_points fund_result = 20
    \<and> health_points fund_result = 25 \<and> valuation_points fund_result = 15
    \<and> cash_flow_points fund_result = 10"
proof -
  have p: "profitability_points fund_result = 30"
    using assms(1-3) by (simp add: profitability_points_def dict_get_def)
  have g: "growth_points fund_result = 20"
    using assms(9,10) by (simp add: growth_points_def)
  have h: "health_points fund_result = 25"
    using assms(4,5,11) by (simp add: health_points_def dict_get_def)
  have v: "valuation_points fund_result = 15"
    using assms(6,7) by (simp add: valuation_points_def dict_get_def)
  have c: "cash_flow_points fund_result = 10"
    using assms(8) by (simp add: cash_flow_points_def dict_get_def)
  have "calculate_fundamental_score fund_result = 100"
    by (simp add: calculate_fundamental_score_def fundamental_max_score_def
        fundamental_points_def p g h v c)
  with p g h v c show ?thesis by simp
qed

theorem fundamental_score_all_buckets_max_witness:
  "growing_fundamentals ''ROE'' = Some (Fin 18)
   \<and> fl_gt (dict_get growing_fundamentals ''Earnings Growth 5yr cagr'' (Fin 0)) (Fin 15)
   \<and> fl_gt (dict_get growing_fundamentals ''Sales Growth 5yr cagr'' (Fin 0)) (Fin 15)
   \<and> fl_gt (dict_get growing_fundamentals ''CFO'' (Fin 0)) (Fin 0)
   \<and> calculate_fundamental_score growing_fundamentals = 100"
  using fundamental_score_all_buckets_max [of growing_fundamentals]
  by (simp add: growing_lookups dict_get_def)

text \<open>
  Claim C5 as it was stated does not fix the growth rates. With the same headline values,
  positive figures throughout and earnings and sales growing 4 per cent a year, the growth
  bucket contributes nothing and the score is 80.
\<close>

theorem clean_fundamentals_score_80:
  "clean_fundamentals ''ROE'' = Some (Fin 18)
   \<and> clean_fundamentals ''ROCE'' = Some (Fin 16)
   \<and> clean_fundamentals ''NPM'' = Some (Fin 12)
   \<and> clean_fundamentals ''d/e_market'' = Some (Fin (3/10))
   \<and> clean_fundamentals ''Interest coverage'' = Some (Fin 5)
   \<and> clean_fundamentals ''p/e'' = Some (Fin 12)
   \<and> clean_fundamentals ''EY'' = Some (Fin 8)
   \<and> clean_fundamentals ''cCFO/cPAT'' = Some (Fin (12/10))
   \<and> growth_points clean_fundamentals = 0
   \<and> calculate_fundamental_score clean_fundamentals = 80"
proof -
  have "growth_points clean_fundamentals = 0"
    by (simp add: growth_points_def clean_lookups)
  moreover have "calculate_fundamental_score clean_fundamentals = 80"
    by (simp add: calculate_fundamental_score_def fundamental_max_score_def
        fundamental_points_def profitability_points_def growth_points_def health_points_def
        valuation_points_def cash_flow_points_def clean_lookups Let_def)
  moreover have "clean_fundamentals ''ROE'' = Some (Fin 18)"
    "clean_fundamentals ''ROCE'' = Some (Fin 16)"
    "clean_fundamentals ''NPM'' = Some (Fin 12)"
    "clean_fundamentals ''d/e_market'' = Some (Fin (3/10))"
    "clean_fundamentals ''Interest coverage'' = Some (Fin 5)"
    "clean_fundamentals ''p/e'' = Some (Fin 12)"
    "clean_fundamentals ''EY'' = Some (Fin 8)"
    "clean_fundamentals ''cCFO/cPAT'' = Some (Fin (12/10))"
    by (simp_all add: clean_fundamentals_def)
  ultimately show ?thesis by simp
qed

subsection \<open>Recommendation\<close>

text \<open>
  Claim C1. For every fundamental score f and technical score t the recommendation is
  "strong buy" when f \<ge> 70 and t \<ge> 67, "buy with caution" when f \<ge> 70 and
  50 \<le> t < 67, "wait" when 50 \<le> f < 70 and t \<ge> 67, and "avoid" otherwise; the
  four scenario points (75, 70), (75, 55), (55, 70) and (40, 40) give these four labels
  in this order.
\<close>

theorem recommendation_thresholds:
  "fst (recommendation_of f t) =
     (if f \<ge> 70 \<and> t \<ge> 67 then STRONG_BUY
      else if f \<ge> 70 \<and> 50 \<le> t \<and> t < 67 then BUY_WITH_CAUTION
      else if 50 \<le> f \<and> f < 70 \<and> t \<ge> 67 then WAIT
      else AVOID)
   \<and> fst (recommendation_of 75 70) = STRONG_BUY
   \<and> fst (recommendation_of 75 55) = BUY_WITH_CAUTION
   \<and> fst (recommendation_of 55 70) = WAIT
   \<and> fst (recommendation_of 40 40) = AVOID"
  by (simp add: recommendation_of_def)

subsection \<open>RSI signal\<close>

lemma rsi_signal_eq:
  "rsi_signal (analyze_rsi rsi) =
     (if fl_le (Fin 45) rsi \<and> fl_le rsi (Fin 60) then RSI_IDEAL_ZONE
      else if fl_le (Fin 40) rsi \<and> fl_le rsi (Fin 70) then RSI_ACCEPTABLE_ZONE
      else if fl_gt rsi (Fin 70) then RSI_OVERBOUGHT
      else if fl_lt rsi (Fin 40) then RSI_OVERSOLD
      else RSI_NEUTRAL)"
  by (simp add: analyze_rsi_def Let_def)

text \<open>
  Claim C8. \<open>analyze_rsi\<close> gives the ideal-zone signal exactly when 45 \<le> RSI \<le> 60,
  both bounds included, and the acceptable-zone signal exactly when 40 \<le> RSI \<le> 70 and
  RSI is outside [45, 60]. RSI = 45 (and 60) is in the ideal zone, RSI = 44.999 in the
  acceptable zone. An infinite or NaN value is in neither.
\<close>

theorem rsi_zone_boundaries:
  "(rsi_signal (analyze_rsi rsi) = RSI_IDEAL_ZONE
      \<longleftrightarrow> (\<exists>r. rsi = Fin r \<and> 45 \<le> r \<and> r \<le> 60))
   \<and> (rsi_signal (analyze_rsi rsi) = RSI_ACCEPTABLE_ZONE
      \<longleftrightarrow> (\<exists>r. rsi = Fin r \<and> 40 \<le> r \<and> r \<le> 70 \<and> \<not> (45 \<le> r \<and> r \<le> 60)))
   \<and> rsi_signal (analyze_rsi (Fin 45)) = RSI_IDEAL_ZONE
   \<and> rsi_signal (analyze_rsi (Fin 60)) = RSI_IDEAL_ZONE
   \<and> rsi_signal (analyze_rsi (Fin (44999 / 1000))) = RSI_ACCEPTABLE_ZONE"
proof (intro conjI)
  show "rsi_signal (analyze_rsi rsi) = RSI_IDEAL_ZONE
      \<longleftrightarrow> (\<exists>r. rsi = Fin r \<and> 45 \<le> r \<and> r \<le> 60)"
    by (cases rsi) (simp_all add: rsi_signal_eq fl_gt_def)
  show "rsi_signal (analyze_rsi rsi) = RSI_ACCEPTABLE_ZONE
      \<longleftrightarrow> (\<exists>r. rsi = Fin r \<and> 40 \<le> r \<and> r \<le> 70 \<and> \<not> (45 \<le> r \<and> r \<le> 60))"
    by (cases rsi) (auto simp add: rsi_signal_eq fl_gt_def)
qed (simp_all add: rsi_signal_eq)

subsection \<open>Aggregate technical score\<close>

lemma analyze_moving_averages_score_le: "analyze_moving_averages_score c a b \<le> 3"
  by (simp add: analyze_moving_averages_score_def Let_def of_bool_def)

lemma analyze_macd_score_le: "analyze_macd_score m s h \<le> 3"
  by (simp add: analyze_macd_score_def Let_def of_bool_def)

lemma analyze_rsi_score_le: "rsi_score (analyze_rsi r) \<le> 3"
  by (simp add: analyze_rsi_def Let_def of_bool_def)

lemma analyze_vwma_score_le: "analyze_vwma_score c v l n u mu d md \<le> 3"
  by (simp add: analyze_vwma_score_def Let_def of_bool_def)

lemma analyze_support_resistance_score_le: "analyze_support_resistance_score c r s \<le> 3"
  by (simp add: analyze_support_resistance_score_def Let_def)

lemma percentage_ge_67: "(67 \<le> real n / 15 * 100) = (11 \<le> n)"
  by (simp add: field_simps) linarith

lemma percentage_ge_50: "(50 \<le> real n / 15 * 100) = (8 \<le> n)"
  by (simp add: field_simps) linarith

text \<open>What the analyses return on a table with rows.\<close>

lemma analyze_moving_averages_Some:
  assumes "analyze_moving_averages df = Inr (Some (ma, ma_sig))"
  shows "ma = analyze_moving_averages_score (Close df) (SMA_50 df) (SMA_200 df)"
  using assms
  by (auto simp add: analyze_moving_averages_def Let_def split: if_splits option.splits)

lemma analyze_macd_Some:
  assumes "analyze_macd df = Inr (Some macd)"
  shows "macd = analyze_macd_score (MACD df) (MACD_signal df) (MACD_hist df)"
  using assms by (auto simp add: analyze_macd_def split: if_splits)

lemma analyze_rsi_table_Some:
  assumes "analyze_rsi_table df = Some rsi"
  shows "rsi = rsi_score (analyze_rsi (RSI_latest df))"
  using assms by (auto simp add: analyze_rsi_table_def split: if_splits)

lemma analyze_vwma_Some:
  assumes "analyze_vwma df = Some vwma"
  shows "vwma = analyze_vwma_score (Close df) (VWMA df) (VWMA_last5 df) (n_rows df)
                  (n_up_days df) (mean_volume_up df) (n_down_days df) (mean_volume_down df)"
  using assms by (auto simp add: analyze_vwma_def split: if_splits)

lemma analyze_support_resistance_Some:
  assumes "analyze_support_resistance df = Some sr"
  shows "sr = analyze_support_resistance_score (Close df) (nearest_resistance df)
                (nearest_support df)"
  using assms by (auto simp add: analyze_support_resistance_def split: if_splits)

text \<open>The shape of every returned result.\<close>

lemma complete_technical_analysis_Inr:
  assumes "complete_technical_analysis spy_fetched df = Inr r"
  shows "\<exists>ma ma_sig macd rsi vwma sr.
           analyze_moving_averages df = Inr (Some (ma, ma_sig))
         \<and> analyze_macd df = Inr (Some macd)
         \<and> analyze_rsi_table df = Some rsi
         \<and> analyze_vwma df = Some vwma
         \<and> analyze_support_resistance df = Some sr
         \<and> r = score_summary ma macd rsi vwma sr"
  using assms
  by (auto simp add: complete_technical_analysis_def Let_def
      split: sum.splits option.splits prod.splits)

lemma score_summary_fields:
  "ma_score (score_summary ma macd rsi vwma sr) = ma"
  "macd_score (score_summary ma macd rsi vwma sr) = macd"
  "rsi_score_of (score_summary ma macd rsi vwma sr) = rsi"
  "vwma_score (score_summary ma macd rsi vwma sr) = vwma"
  "sr_score (score_summary ma macd rsi vwma sr) = sr"
  "total_score (score_summary ma macd rsi vwma sr) = ma + macd + rsi + vwma + sr"
  "max_score (score_summary ma macd rsi vwma sr) = 15"
  "score_percentage (score_summary ma macd rsi vwma sr)
     = real (ma + macd + rsi + vwma + sr) / 15 * 100"
  "overall_technical_signal (score_summary ma macd rsi vwma sr) =
       (if real (ma + macd + rsi + vwma + sr) / 15 * 100 \<ge> 67 then TECH_STRONG_BUY
        else if real (ma + macd + rsi + vwma + sr) / 15 * 100 \<ge> 50 then TECH_WAIT
        else TECH_AVOID)"
  by (simp_all add: score_summary_def Let_def)

lemma complete_technical_analysis_returns:
  assumes "2 \<le> n_rows df"
    and "\<not> (analyze_moving_averages_score (Close df) (SMA_50 df) (SMA_200 df) = 3
             \<and> SMA_20 df = NaN)"
  shows "\<exists>r. complete_technical_analysis (History spy_data) df = Inr r"
proof -
  have ma: "\<exists>p. analyze_moving_averages df = Inr (Some p)"
    using assms by (auto simp add: analyze_moving_averages_def Let_def)
  have macd: "\<exists>m. analyze_macd df = Inr (Some m)"
    using assms(1) by (simp add: analyze_macd_def)
  have rest: "analyze_rsi_table df \<noteq> None" "analyze_vwma df \<noteq> None"
    "analyze_support_resistance df \<noteq> None"
    using assms(1)
    by (simp_all add: analyze_rsi_table_def analyze_vwma_def analyze_support_resistance_def)
  have spy: "analyze_market_trend (History spy_data) = Inr (Some spy_data)"
    by (simp add: analyze_market_trend_def get_stock_data_def)
  show ?thesis
    using ma macd rest spy
    by (auto simp add: complete_technical_analysis_def Let_def)
qed

text \<open>
  Claim C4. In \<open>complete_technical_analysis\<close> the total score is the sum of the five
  indicator sub-scores, that is of the scores computed by the moving-average, MACD, RSI,
  VWMA and support/resistance analyses; each sub-score is between 0 and 3, so the total
  is between 0 and 15; the percentage is total / 15 \<times> 100; the signal is
  "strong buy / enter position" exactly when the percentage is at least 67,
  "wait / need confirmation" exactly when it is at least 50 and below 67, and
  "avoid / poor setup" exactly when it is below 50. This holds for every result the
  function returns, and it returns one whenever the table has at least two rows, the
  moving-average analysis does not meet a missing 20-day average at score 3, and the
  benchmark fetch succeeds.
\<close>

theorem technical_score_aggregate:
  "(2 \<le> n_rows df
      \<and> \<not> (analyze_moving_averages_score (Close df) (SMA_50 df) (SMA_200 df) = 3
             \<and> SMA_20 df = NaN)
      \<longrightarrow> (\<exists>r. complete_technical_analysis (History spy_data) df = Inr r))
   \<and> (\<forall>r. complete_technical_analysis spy_fetched df = Inr r \<longrightarrow>
        ma_score r = analyze_moving_averages_score (Close df) (SMA_50 df) (SMA_200 df)
      \<and> macd_score r = analyze_macd_score (MACD df) (MACD_signal df) (MACD_hist df)
      \<and> rsi_score_of r = rsi_score (analyze_rsi (RSI_latest df))
      \<and> vwma_score r = analyze_vwma_score (Close df) (VWMA df) (VWMA_last5 df) (n_rows df)
                          (n_up_days df) (mean_volume_up df) (n_down_days df)
                          (mean_volume_down df)
      \<and> sr_score r = analyze_support_resistance_score (Close df) (nearest_resistance df)
                        (nearest_support df)
      \<and> total_score r = ma_score r + macd_score r + rsi_score_of r + vwma_score r + sr_score r
      \<and> ma_score r \<le> 3 \<and> macd_score r \<le> 3 \<and> rsi_score_of r \<le> 3
      \<and> vwma_score r \<le> 3 \<and> sr_score r \<le> 3
      \<and> 0 \<le> total_score r \<and> total_score r \<le> 15
      \<and> max_score r = 15
      \<and> score_percentage r = real (total_score r) / 15 * 100
      \<and> (overall_technical_signal r = TECH_STRONG_BUY \<longleftrightarrow> score_percentage r \<ge> 67)
      \<and> (overall_technical_signal r = TECH_WAIT
            \<longleftrightarrow> 50 \<le> score_percentage r \<and> score_percentage r < 67)
      \<and> (overall_technical_signal r = TECH_AVOID \<longleftrightarrow> score_percentage r < 50))"
proof (intro conjI impI allI)
  assume "2 \<le> n_rows df
      \<and> \<not> (analyze_moving_averages_score (Close df) (SMA_50 df) (SMA_200 df) = 3
             \<and> SMA_20 df = NaN)"
  then show "\<exists>r. complete_technical_analysis (History spy_data) df = Inr r"
    using complete_technical_analysis_returns [of df spy_data] by blast
next
  fix r
  assume a: "complete_technical_analysis spy_fetched df = Inr r"
  obtain ma ma_sig macd rsi vwma sr where s:
    "analyze_moving_averages df = Inr (Some (ma, ma_sig))"
    "analyze_macd df = Inr (Some macd)"
    "analyze_rsi_table df = Some rsi"
    "analyze_vwma df = Some vwma"
    "analyze_support_resistance df = Some sr"
    and r: "ma_score r = ma" "macd_score r = macd" "rsi_score_of r = rsi"
    "vwma_score r = vwma" "sr_score r = sr"
    "total_score r = ma + macd + rsi + vwma + sr" "max_score r = 15"
    "score_percentage r = real (ma + macd + rsi + vwma + sr) / 15 * 100"
    "overall_technical_signal r =
       (if real (ma + macd + rsi + vwma + sr) / 15 * 100 \<ge> 67 then TECH_STRONG_BUY
        else if real (ma + macd + rsi + vwma + sr) / 15 * 100 \<ge> 50 then TECH_WAIT
        else TECH_AVOID)"
    using complete_technical_analysis_Inr [OF a] score_summary_fields by metis
  have e: "ma = analyze_moving_averages_score (Close df) (SMA_50 df) (SMA_200 df)"
    "macd = analyze_macd_score (MACD df) (MACD_signal df) (MACD_hist df)"
    "rsi = rsi_score (analyze_rsi (RSI_latest df))"
    "vwma = analyze_vwma_score (Close df) (VWMA df) (VWMA_last5 df) (n_rows df)
              (n_up_days df) (mean_volume_up df) (n_down_days df) (mean_volume_down df)"
    "sr = analyze_support_resistance_score (Close df) (nearest_resistance df)
            (nearest_support df)"
    using analyze_moving_averages_Some [OF s(1)] analyze_macd_Some [OF s(2)]
      analyze_rsi_table_Some [OF s(3)] analyze_vwma_Some [OF s(4)]
      analyze_support_resistance_Some [OF s(5)]
    by simp_all
  have b: "ma \<le> 3" "macd \<le> 3" "rsi \<le> 3" "vwma \<le> 3" "sr \<le> 3"
    unfolding e
    by (rule analyze_moving_averages_score_le analyze_macd_score_le analyze_rsi_score_le
        analyze_vwma_score_le analyze_support_resistance_score_le)+
  show "ma_score r = analyze_moving_averages_score (Close df) (SMA_50 df) (SMA_200 df)"
    using r(1) e(1) by simp
  show "macd_score r = analyze_macd_score (MACD df) (MACD_signal df) (MACD_hist df)"
    using r(2) e(2) by simp
  show "rsi_score_of r = rsi_score (analyze_rsi (RSI_latest df))"
    using r(3) e(3) by simp
  show "vwma_score r = analyze_vwma_score (Close df) (VWMA df) (VWMA_last5 df) (n_rows df)
                          (n_up_days df) (mean_volume_up df) (n_down_days df)
                          (mean_volume_down df)"
    using r(4) e(4) by simp
  show "sr_score r = analyze_support_resistance_score (Close df) (nearest_resistance df)
                        (nearest_support df)"
    using r(5) e(5) by simp
  show "total_score r = ma_score r + macd_score r + rsi_score_of r + vwma_score r + sr_score r"
    using r by simp
  show "ma_score r \<le> 3" "macd_score r \<le> 3" "rsi_score_of r \<le> 3"
    "vwma_score r \<le> 3" "sr_score r \<le> 3"
    using r b by simp_all
  show "0 \<le> total_score r" by simp
  show "total_score r \<le> 15" using r(6) b by simp
  show "max_score r = 15" by (rule r(7))
  show "score_percentage r = real (total_score r) / 15 * 100"
    using r(6) r(8) by simp
  show "overall_technical_signal r = TECH_STRONG_BUY \<longleftrightarrow> score_percentage r \<ge> 67"
    using r(8) r(9) by simp
  show "overall_technical_signal r = TECH_WAIT
            \<longleftrightarrow> 50 \<le> score_percentage r \<and> score_percentage r < 67"
    using r(8) r(9) by auto
  show "overall_technical_signal r = TECH_AVOID \<longleftrightarrow> score_percentage r < 50"
    using r(8) r(9) by auto
qed

text \<open>
  On the table \<open>extended_uptrend\<close> the function returns; the sub-scores 3, 3, 1, 3 and 0
  add up to 10, which is 66.67 per cent and so a "wait".
\<close>

theorem technical_score_aggregate_witness:
  "2 \<le> n_rows extended_uptrend \<and> SMA_20 extended_uptrend \<noteq> NaN
   \<and> map_sum id (\<lambda>r. (ma_score r, macd_score r, rsi_score_of r, vwma_score r, sr_score r,
                        total_score r, overall_technical_signal r))
       (complete_technical_analysis (History ()) extended_uptrend)
     = Inr (3, 3, 1, 3, 0, 10, TECH_WAIT)"
proof -
  have n: "2 \<le> n_rows extended_uptrend" "SMA_20 extended_uptrend \<noteq> NaN"
    by (simp_all add: extended_uptrend_def)
  have v: "analyze_moving_averages_score (Close extended_uptrend) (SMA_50 extended_uptrend)
             (SMA_200 extended_uptrend) = 3"
    "analyze_macd_score (MACD extended_uptrend) (MACD_signal extended_uptrend)
       (MACD_hist extended_uptrend) = 3"
    "rsi_score (analyze_rsi (RSI_latest extended_uptrend)) = 1"
    "analyze_vwma_score (Close extended_uptrend) (VWMA extended_uptrend)
       (VWMA_last5 extended_uptrend) (n_rows extended_uptrend) (n_up_days extended_uptrend)
       (mean_volume_up extended_uptrend) (n_down_days extended_uptrend)
       (mean_volume_down extended_uptrend) = 3"
    "analyze_support_resistance_score (Close extended_uptrend)
       (nearest_resistance extended_uptrend) (nearest_support extended_uptrend) = 0"
    by (simp_all add: extended_uptrend_def analyze_moving_averages_score_def
        analyze_macd_score_def analyze_rsi_def analyze_vwma_score_def
        analyze_support_resistance_score_def fl_sub_def Let_def)
  note t = technical_score_aggregate [of extended_uptrend "()" "History ()"]
  obtain r where r: "complete_technical_analysis (History ()) extended_uptrend = Inr r"
    using t n by blast
  have p: "ma_score r = 3" "macd_score r = 3" "rsi_score_of r = 1" "vwma_score r = 3"
    "sr_score r = 0" "total_score r = 10"
    using t r v by simp_all
  have "score_percentage r = 200 / 3"
    using t r p(6) by simp
  then have "overall_technical_signal r = TECH_WAIT"
    using t r by simp
  then show ?thesis
    using n r p by simp
qed

text \<open>In terms of the total: eleven points or more is a strong buy, eight to ten a wait.\<close>

lemma technical_signal_by_total:
  assumes "complete_technical_analysis spy_fetched df = Inr r"
  shows "overall_technical_signal r =
     (if 11 \<le> total_score r then TECH_STRONG_BUY
      else if 8 \<le> total_score r then TECH_WAIT
      else TECH_AVOID)"
proof -
  obtain ma macd rsi vwma sr where "r = score_summary ma macd rsi vwma sr"
    using complete_technical_analysis_Inr [OF assms] by blast
  then have "overall_technical_signal r =
     (if 67 \<le> real (total_score r) / 15 * 100 then TECH_STRONG_BUY
      else if 50 \<le> real (total_score r) / 15 * 100 then TECH_WAIT
      else TECH_AVOID)"
    by (simp only: score_summary_fields)
  then show ?thesis
    by (simp only: percentage_ge_67 percentage_ge_50)
qed

text \<open>
  Where the function raises instead: on a table without rows, on a table of one row, and
  when the benchmark fetch fails.
\<close>

lemma complete_technical_analysis_empty_table:
  "n_rows df = 0 \<Longrightarrow> \<exists>e. complete_technical_analysis spy_fetched df = Inl e"
  by (auto simp add: complete_technical_analysis_def analyze_moving_averages_def
      analyze_macd_def analyze_rsi_table_def analyze_vwma_def analyze_support_resistance_def
      Let_def split: sum.splits option.splits)

lemma complete_technical_analysis_one_row:
  "n_rows df = 1 \<Longrightarrow> \<exists>e. complete_technical_analysis spy_fetched df = Inl e"
  by (auto simp add: complete_technical_analysis_def analyze_macd_def split: sum.splits)

lemma complete_technical_analysis_benchmark_fails:
  "spy_fetched = History_Raises \<or> spy_fetched = History_Empty
     \<Longrightarrow> \<exists>e. complete_technical_analysis spy_fetched df = Inl e"
  by (auto simp add: complete_technical_analysis_def analyze_market_trend_def
      get_stock_data_def Let_def split: sum.splits option.splits)

subsection \<open>Compound annual growth rate\<close>

text \<open>
  Claim C7. \<open>calculate_cagr(start, end, periods)\<close> returns NaN whenever start \<le> 0 or
  end \<le> 0 or periods \<le> 0, and otherwise returns
  ((end / start) ^ (1 / periods) - 1) \<times> 100.
\<close>

theorem calculate_cagr_spec:
  "(start_value \<le> 0 \<or> end_value \<le> 0 \<or> periods \<le> 0
      \<longrightarrow> calculate_cagr start_value end_value periods = NaN)
   \<and> (0 < start_value \<and> 0 < end_value \<and> 0 < periods
      \<longrightarrow> calculate_cagr start_value end_value periods
          = Fin (((end_value / start_value) powr (1 / real_of_int periods) - 1) * 100))"
  by (auto simp add: calculate_cagr_def)

lemma sqrt_121_100: "sqrt (121 / 100) = 11 / 10"
  by (rule real_sqrt_unique) (simp_all add: power2_eq_square)

text \<open>From 100 to 121 in two periods is 10 per cent a year.\<close>

theorem calculate_cagr_spec_witness:
  "(0::real) < 100 \<and> (0::real) < 121 \<and> (0::int) < 2
   \<and> calculate_cagr 100 121 2 = Fin 10
   \<and> calculate_cagr 0 121 2 = NaN \<and> calculate_cagr 100 (-5) 2 = NaN
   \<and> calculate_cagr 100 121 0 = NaN"
  using calculate_cagr_spec [of 100 121 2] calculate_cagr_spec [of 0 121 2]
    calculate_cagr_spec [of 100 "-5" 2] calculate_cagr_spec [of 100 121 0]
  by (simp add: powr_half_sqrt sqrt_121_100)

subsection \<open>Position sizing\<close>

lemma py_int_floor: "0 \<le> x \<Longrightarrow> py_int x = \<lfloor>x\<rfloor>"
  by (simp add: py_int_def)

lemma fl_sub_NaN: "fl_sub a NaN = NaN"
  by (cases a) (simp_all add: fl_sub_def)

text \<open>
  Claim C9, as amended. For a finite entry price and stop loss, the rounded difference
  entry - stop having the sign of the exact one (as it has for doubles): if the stop
  loss is at or above the entry price, \<open>calculate_position_size\<close> returns the error result
  with 0 shares and position value 0, and raises nothing. Otherwise, when the portfolio
  value is not zero and the float quotient of the risk amount
  portfolio_value \<times> (risk_percent / 100) by (entry - stop) is a finite number, it
  returns a position whose share count is that quotient truncated towards zero; when the
  quotient is not negative this is its floor, and it is not negative.
\<close>

theorem position_size_spec:
  assumes "fl_le (rnd (entry - stop)) (Fin 0) = (entry \<le> stop)"
  shows "(stop \<ge> entry
      \<longrightarrow> calculate_position_size rnd portfolio_value risk_pct (Fin entry) (Fin stop)
            = Inr (Position_Error ''Stop loss must be below entry price'' 0 0))
   \<and> (stop < entry \<and> portfolio_value \<noteq> Fin 0
        \<and> risk_quotient rnd portfolio_value risk_pct (Fin entry) (Fin stop) = Fin q
      \<longrightarrow> (\<exists>p. calculate_position_size rnd portfolio_value risk_pct (Fin entry) (Fin stop)
                  = Inr (Position p)
            \<and> shares p = py_int q
            \<and> (0 \<le> q \<longrightarrow> shares p = \<lfloor>q\<rfloor> \<and> 0 \<le> shares p)))"
proof (intro conjI impI)
  assume "stop \<ge> entry"
  then show "calculate_position_size rnd portfolio_value risk_pct (Fin entry) (Fin stop)
            = Inr (Position_Error ''Stop loss must be below entry price'' 0 0)"
    using assms by (simp add: calculate_position_size_def Let_def r_sub_def)
next
  assume a: "stop < entry \<and> portfolio_value \<noteq> Fin 0
        \<and> risk_quotient rnd portfolio_value risk_pct (Fin entry) (Fin stop) = Fin q"
  let ?per_share = "r_sub rnd (Fin entry) (Fin stop)"
  let ?risk = "r_mul rnd portfolio_value (r_div rnd risk_pct (Fin 100))"
  have g: "\<not> fl_le ?per_share (Fin 0)"
    using a assms by (simp add: r_sub_def)
  then have nz: "?per_share \<noteq> Fin 0"
    by auto
  have d: "py_truediv rnd ?risk ?per_share = Inr (Fin q)"
    using a nz by (simp add: py_truediv_def risk_quotient_def)
  have "\<exists>p. calculate_position_size rnd portfolio_value risk_pct (Fin entry) (Fin stop)
                  = Inr (Position p) \<and> shares p = py_int q"
    using a g d by (simp add: calculate_position_size_def Let_def py_int_of_def py_truediv_def)
  then obtain p where p:
    "calculate_position_size rnd portfolio_value risk_pct (Fin entry) (Fin stop) = Inr (Position p)"
    "shares p = py_int q" by blast
  have "0 \<le> q \<longrightarrow> shares p = \<lfloor>q\<rfloor> \<and> 0 \<le> shares p"
    using p(2) by (simp add: py_int_floor)
  with p show "\<exists>p. calculate_position_size rnd portfolio_value risk_pct (Fin entry) (Fin stop)
                  = Inr (Position p)
            \<and> shares p = py_int q
            \<and> (0 \<le> q \<longrightarrow> shares p = \<lfloor>q\<rfloor> \<and> 0 \<le> shares p)" by blast
qed

text \<open>
  A portfolio of 1024 risking 50 per cent with entry 10 and stop 6: every intermediate
  result (0.5, 512, 4, 128, 1280, 1.25, 125, 50) is a double, so the rounding returns it
  as it is. The function buys 128 shares; with the stop at the entry price the error
  result comes back.
\<close>

theorem position_size_spec_witness:
  "fl_le (Fin ((10::real) - 6)) (Fin 0) = ((10::real) \<le> 6)
   \<and> (6::real) < 10 \<and> Fin 1024 \<noteq> Fin 0
   \<and> risk_quotient Fin (Fin 1024) (Fin 50) (Fin 10) (Fin 6) = Fin 128
   \<and> map_sum id result_shares (calculate_position_size Fin (Fin 1024) (Fin 50) (Fin 10) (Fin 6))
       = Inr 128
   \<and> calculate_position_size Fin (Fin 1024) (Fin 50) (Fin 10) (Fin 10)
        = Inr (Position_Error ''Stop loss must be below entry price'' 0 0)"
proof -
  have q: "risk_quotient Fin (Fin 1024) (Fin 50) (Fin 10) (Fin 6) = Fin 128"
    by (simp add: risk_quotient_def r_div_def r_mul_def r_sub_def)
  have s1: "fl_le (Fin ((10::real) - 6)) (Fin 0) = ((10::real) \<le> 6)" by simp
  have s2: "fl_le (Fin ((10::real) - 10)) (Fin 0) = ((10::real) \<le> 10)" by simp
  show ?thesis
    using position_size_spec [of Fin 10 6 "Fin 1024" "Fin 50" 128, OF s1]
      position_size_spec [of Fin 10 10 "Fin 1024" "Fin 50" 128, OF s2] q
    by auto
qed

text \<open>
  Claim C9 as it was stated takes the floor for every input. With a negative risk amount
  (portfolio 16, risk -62.5 per cent, entry 10, stop 6) every intermediate result
  (-0.625, -10, 4, -2.5, -20, -1.25, -125, -8, -0.5, -50) is again a double; the
  quotient is -2.5, the function returns -2 shares, and the floor is -3.
\<close>

theorem position_size_truncates_counterexample:
  "(6::real) < 10
   \<and> risk_quotient Fin (Fin 16) (Fin (- 125 / 2)) (Fin 10) (Fin 6) = Fin (- 5 / 2)
   \<and> map_sum id result_shares
       (calculate_position_size Fin (Fin 16) (Fin (- 125 / 2)) (Fin 10) (Fin 6)) = Inr (- 2)
   \<and> \<lfloor>(- 5 / 2 :: real)\<rfloor> = - 3"
  by (simp add: calculate_position_size_def risk_quotient_def Let_def py_int_def py_int_of_def
      py_truediv_def r_div_def r_mul_def r_sub_def)

text \<open>
  Outside the amended claim the function raises, whatever the rounding: with a NaN stop
  loss the guard is false and \<open>int\<close> meets NaN; with a portfolio value of zero and a valid
  stop the percentage division fails.
\<close>

lemma position_size_nan_stop:
  "calculate_position_size rnd portfolio_value risk_pct entry_price NaN = Inl ValueError"
proof -
  have s: "r_sub rnd entry_price NaN = NaN"
    by (cases entry_price) (simp_all add: r_sub_def fl_sub_NaN)
  have d: "r_div rnd x NaN = NaN" for x
    by (cases x) (simp_all add: r_div_def)
  show ?thesis
    by (simp add: calculate_position_size_def Let_def s d py_truediv_def py_int_of_def)
qed

lemma position_size_zero_portfolio:
  "calculate_position_size Fin (Fin 0) (Fin (3/2)) (Fin 100) (Fin 95) = Inl ZeroDivisionError"
  by (simp add: calculate_position_size_def Let_def py_int_def py_int_of_def
      py_truediv_def r_div_def r_mul_def r_sub_def)

subsection \<open>Averages with a minimum sample\<close>

lemma fl_ne_NaN: "fl_ne a NaN"
  by (cases a) simp_all

lemma null_check_iff: "null_check c = (\<exists>x. c = Some x \<and> x \<noteq> NaN)"
  by (cases c) (auto simp add: null_check_def pd_notnull_def fl_ne_NaN)

lemma length_values_of_valid:
  "length (values_of (filter null_check cs)) = length (filter null_check cs)"
  by (induction cs rule: values_of.induct) (simp_all add: null_check_iff)

lemma values_of_valid:
  "values_of (filter null_check cs) = filter (\<lambda>x. x \<noteq> NaN) (values_of cs)"
  by (induction cs rule: values_of.induct) (simp_all add: null_check_iff)

lemma foldl_fl_add_Fin: "foldl fl_add (Fin a) (map Fin rs) = Fin (a + sum_list rs)"
  by (induction rs arbitrary: a) (simp_all add: add.assoc)

lemma np_mean_Fin:
  "rs \<noteq> [] \<Longrightarrow> np_mean (map Fin rs) = Fin (sum_list rs / real (length rs))"
  by (simp add: np_mean_def foldl_fl_add_Fin)

lemma np_mean_Nil: "np_mean [] = NaN"
  by (simp add: np_mean_def inf_of_sign_def)

text \<open>
  Claim C6, as amended. \<open>get_means\<close> first drops the \<open>None\<close> and NaN entries. If fewer than
  \<open>min_n\<close> valid entries remain it returns -1; in particular, with the default
  \<open>min_n = 2\<close>, exactly one valid sample gives -1 and not the sample. If at least \<open>min_n\<close>
  valid entries remain and their mean is itself a number (not NaN), it returns that mean;
  this is the arithmetic mean sum / count whenever there is at least one valid entry and
  all valid entries are finite. When the mean of the valid entries is NaN (no entry at
  all, or infinities of both signs) the result is -1.
\<close>

theorem get_means_spec:
  "values_of (filter null_check num_list) = filter (\<lambda>x. x \<noteq> NaN) (values_of num_list)
   \<and> (int (length (values_of (filter null_check num_list))) < min_n
        \<longrightarrow> get_means num_list min_n = Fin (- 1))
   \<and> (length (values_of (filter null_check num_list)) = 1
        \<longrightarrow> get_means num_list 2 = Fin (- 1))
   \<and> (min_n \<le> int (length (values_of (filter null_check num_list)))
        \<and> np_mean (values_of (filter null_check num_list)) \<noteq> NaN
        \<longrightarrow> get_means num_list min_n = np_mean (values_of (filter null_check num_list)))
   \<and> (np_mean (values_of (filter null_check num_list)) = NaN
        \<longrightarrow> get_means num_list min_n = Fin (- 1))
   \<and> (min_n \<le> int (length rs) \<and> rs \<noteq> [] \<and> values_of (filter null_check num_list) = map Fin rs
        \<longrightarrow> get_means num_list min_n = Fin (sum_list rs / real (length rs)))"
proof (intro conjI impI)
  let ?valid = "values_of (filter null_check num_list)"
  show "?valid = filter (\<lambda>x. x \<noteq> NaN) (values_of num_list)"
    by (rule values_of_valid)
  show "get_means num_list min_n = Fin (- 1)" if "int (length ?valid) < min_n"
    using that by (simp add: get_means_def Let_def length_values_of_valid)
  show "get_means num_list 2 = Fin (- 1)" if "length ?valid = 1"
    using that by (simp add: get_means_def Let_def length_values_of_valid)
  show "get_means num_list min_n = np_mean ?valid"
    if "min_n \<le> int (length ?valid) \<and> np_mean ?valid \<noteq> NaN"
    using that by (simp add: get_means_def Let_def length_values_of_valid null_check_iff)
  show "get_means num_list min_n = Fin (- 1)" if "np_mean ?valid = NaN"
    using that by (simp add: get_means_def Let_def null_check_iff)
  show "get_means num_list min_n = Fin (sum_list rs / real (length rs))"
    if h: "min_n \<le> int (length rs) \<and> rs \<noteq> [] \<and> ?valid = map Fin rs"
  proof -
    have l: "length (filter null_check num_list) = length rs"
      using h length_values_of_valid [of num_list] by simp
    show ?thesis
      using h l by (simp add: get_means_def Let_def np_mean_Fin null_check_iff)
  qed
qed

text \<open>
  Samples 10 and 20 among a \<open>None\<close> and a NaN average to 15; the single sample 10 gives -1.
\<close>

theorem get_means_spec_witness:
  "get_means [Some (Fin 10), None, Some NaN, Some (Fin 20)] 2 = Fin 15
   \<and> values_of (filter null_check [Some (Fin 10), Some NaN]) = [Fin 10]
   \<and> get_means [Some (Fin 10), Some NaN] 2 = Fin (- 1)"
  using get_means_spec [of "[Some (Fin 10), None, Some NaN, Some (Fin 20)]" 2 "[10, 20]"]
    get_means_spec [of "[Some (Fin 10), Some NaN]" 2 "[]"]
  by (simp add: null_check_iff)

text \<open>
  Claim C6 as it was stated lets \<open>min_n\<close> be any integer. With \<open>min_n = 0\<close> and no entry
  the count 0 reaches \<open>min_n\<close>, the mean of the valid entries is NaN, and the function
  returns -1, which is not that mean.
\<close>

theorem get_means_empty_counterexample:
  "(0::int) \<le> int (length (values_of (filter null_check [])))
   \<and> np_mean (values_of (filter null_check [])) = NaN
   \<and> get_means [] 0 = Fin (- 1)"
  by (simp add: get_means_def Let_def np_mean_Nil null_check_iff)

text \<open>The same happens with the default minimum when the entries are the two infinities.\<close>

lemma get_means_infinities: "get_means [Some PInf, Some NInf] 2 = Fin (- 1)"
  by (simp add: get_means_def Let_def np_mean_def null_check_iff)

subsection \<open>Missing line items in the fundamentals engine\<close>

text \<open>A lookup of an absent line item gives the zero-filled series of the given length.\<close>

lemma df_get_absent:
  "map_of (columns df) name = None \<Longrightarrow> df_get df name (zeros n) = replicate n (Fin 0)"
  by (simp add: df_get_def zeros_def)

lemma py_index_Nil: "py_index [] i = Inl IndexError"
  by (simp add: py_index_def Let_def)

lemma upt_0_2: "[0..<2] = [0, Suc 0]"
  by (simp add: numeral_2_eq_2)

text \<open>
  Claim C2 says that \<open>compute_yfinance_metrics\<close> returns a metrics mapping and never raises
  when a named line item such as Stockholders Equity is absent. Evaluated on two periods
  of statements whose balance sheet has no Stockholders Equity line, the function raises
  \<open>IndexError\<close>: every average equity is zero, nothing is appended to \<open>roe_values\<close>, and
  \<open>roe_values[latest]\<close> indexes the empty list. With the line present it returns.
\<close>

theorem compute_yfinance_metrics_missing_equity:
  "\<not> df_empty income_2y \<and> \<not> df_empty balance_no_equity \<and> \<not> df_empty cashflow_2y
   \<and> map_of (columns balance_no_equity) ''Stockholders Equity'' = None
   \<and> compute_yfinance_metrics income_2y balance_no_equity cashflow_2y = Inl IndexError
   \<and> compute_yfinance_metrics income_2y balance_with_equity cashflow_2y
       = Inr (Metrics \<lparr> average_ROA = Fin (445 / 82), average_ROE = Fin (49 / 4),
                         ROE = Fin 12, ROA = Fin (240 / 41) \<rparr>)"
  by (simp add: compute_yfinance_metrics_def roa_roe_metrics_def df_empty_def df_get_def
      zeros_def last_n_def income_2y_def balance_no_equity_def balance_with_equity_def
      cashflow_2y_def Let_def py_index_def avg_with_previous_def get_means_def np_mean_def
      null_check_iff upt_0_2)

lemma py_index_mem: "py_index xs i = Inr v \<Longrightarrow> v \<in> set xs"
  by (auto simp add: py_index_def Let_def split: if_splits)

lemma avg_with_previous_zero:
  assumes "\<forall>x\<in>set series. x = Fin 0" and "avg_with_previous series i = Inr v"
  shows "v = Fin 0"
proof (cases "0 < i")
  case False
  then show ?thesis
    using assms py_index_mem [of series "int i" v] by (simp add: avg_with_previous_def)
next
  case True
  then obtain cur prev where c: "py_index series (int i) = Inr cur"
    "py_index series (int i - 1) = Inr prev" "v = fl_div (fl_add cur prev) (Fin 2)"
    using assms(2) by (auto simp add: avg_with_previous_def split: sum.splits)
  have "cur = Fin 0"
    using assms(1) py_index_mem [OF c(1)] by blast
  moreover have "prev = Fin 0"
    using assms(1) py_index_mem [OF c(2)] by blast
  ultimately show ?thesis
    using c(3) by simp
qed

lemma roa_roe_loop_zero_equity:
  assumes "\<forall>x\<in>set eqs. x = Fin 0"
    and "roa_roe_loop nis tas eqs idx roa roe = Inr (roa', roe')"
  shows "roe' = roe"
  using assms(2)
proof (induction idx arbitrary: roa roe)
  case Nil
  then show ?case by simp
next
  case (Cons i rest)
  then show ?case
    using avg_with_previous_zero [OF assms(1)]
    by (auto simp add: Let_def split: sum.splits if_splits)
qed

text \<open>
  This is so for every input: whenever the three tables are not empty and the balance sheet
  has no Stockholders Equity line, the function raises.
\<close>

lemma missing_equity_raises:
  assumes "\<not> df_empty income" and "\<not> df_empty balance" and "\<not> df_empty cashflow"
    and "map_of (columns balance) ''Stockholders Equity'' = None"
  shows "\<exists>e. compute_yfinance_metrics income balance cashflow = Inl e"
proof -
  let ?n = "n_periods income"
  let ?eqs = "last_n (min 5 ?n) (df_get balance ''Stockholders Equity'' (zeros ?n))"
  have z: "\<forall>x\<in>set ?eqs. x = Fin 0"
    using assms(4) by (auto simp add: df_get_def zeros_def last_n_def dest: in_set_dropD)
  have "\<exists>e. roa_roe_metrics income balance = Inl e"
  proof (cases "roa_roe_loop (last_n (min 5 ?n) (df_get income ''Net Income'' (zeros ?n)))
          (last_n (min 5 ?n) (df_get balance ''Total Assets'' (zeros ?n))) ?eqs [0..<min 4 ?n] [] []")
    case (Inl e)
    then show ?thesis by (simp add: roa_roe_metrics_def Let_def)
  next
    case (Inr p)
    obtain roa' roe' where p: "p = (roa', roe')" by (cases p)
    have "roe' = []"
      using roa_roe_loop_zero_equity [OF z] Inr p by blast
    then show ?thesis
      using Inr p by (simp add: roa_roe_metrics_def Let_def py_index_Nil)
  qed
  then show ?thesis
    using assms(1-3) by (auto simp add: compute_yfinance_metrics_def)
qed

subsection \<open>Batch analysis\<close>

lemma store_results_batch:
  "foldl store_result results (zip batch (map (\<lambda>t. Returns (f t)) batch)) t
     = (if t \<in> set batch then Some (f t) else results t)"
  by (induction batch arbitrary: results) (auto simp add: store_result_def)

lemma process_batch_lookup:
  "process_batch env tickers bs results i t
     = (if t \<in> set (take bs (drop i tickers)) then Some (analyze_stock env t) else results t)"
  by (simp add: process_batch_def Let_def store_results_batch)

lemma process_batches_lookup:
  "foldl (process_batch env tickers bs) results starts t
     = (if t \<in> (\<Union>i\<in>set starts. set (take bs (drop i tickers)))
        then Some (analyze_stock env t) else results t)"
  by (induction starts arbitrary: results) (auto simp add: process_batch_lookup)

lemma batches_cover:
  assumes "0 < bs"
  shows "(\<Union>i\<in>set (map (\<lambda>k. k * bs) [0..<(length xs + bs - 1) div bs]). set (take bs (drop i xs)))
           = set xs"
proof
  show "(\<Union>i\<in>set (map (\<lambda>k. k * bs) [0..<(length xs + bs - 1) div bs]). set (take bs (drop i xs)))
           \<subseteq> set xs"
    by (auto dest: in_set_takeD in_set_dropD)
next
  show "set xs \<subseteq> (\<Union>i\<in>set (map (\<lambda>k. k * bs) [0..<(length xs + bs - 1) div bs]). set (take bs (drop i xs)))"
  proof
    fix x assume "x \<in> set xs"
    then obtain j where j: "j < length xs" "xs ! j = x"
      by (auto simp add: in_set_conv_nth)
    let ?k = "j div bs"
    have jk: "?k * bs + j mod bs = j" by simp
    have "j + bs \<le> length xs + bs - 1" using j(1) assms by simp
    then have "(j + bs) div bs \<le> (length xs + bs - 1) div bs" by (rule div_le_mono)
    then have k: "?k < (length xs + bs - 1) div bs" using assms by simp
    have m: "j mod bs < bs" using assms by simp
    have len: "j mod bs < length (drop (?k * bs) xs)"
      using j(1) jk by (simp add: less_diff_conv)
    have "take bs (drop (?k * bs) xs) ! (j mod bs) = x"
      using m len j(2) jk by (simp add: add.commute)
    moreover have "j mod bs < length (take bs (drop (?k * bs) xs))"
      using m len by simp
    ultimately have "x \<in> set (take bs (drop (?k * bs) xs))"
      by (metis nth_mem)
    with k show "x \<in> (\<Union>i\<in>set (map (\<lambda>k. k * bs) [0..<(length xs + bs - 1) div bs]). set (take bs (drop i xs)))"
      by auto
  qed
qed

lemma analyze_multiple_stocks_lookup:
  assumes "0 < batch_size"
  shows "\<exists>results. analyze_multiple_stocks env tickers batch_size = Inr results
           \<and> (\<forall>t. results t = (if t \<in> set tickers then Some (analyze_stock env t) else None))"
proof -
  have bs: "0 < nat batch_size" using assms by simp
  show ?thesis
    using assms batches_cover [OF bs, of tickers]
    by (simp add: analyze_multiple_stocks_def range_step_def process_batches_lookup)
qed

lemma analyze_stock_ticker: "analyze_stock env t ''ticker'' = Some (VStr t)"
  by (simp add: analyze_stock_def error_entry_def Let_def
      split: stock_data.splits fund_value.splits outcome.splits)

lemma analyze_stock_fetch_raises:
  "history env t = History_Raises \<Longrightarrow> analyze_stock env t = [''ticker'' \<mapsto> VStr t]"
  by (simp add: analyze_stock_def get_stock_data_def run_fundamentals_def run_technicals_def)

lemma analyze_stock_fetch_empty:
  "history env t = History_Empty
     \<Longrightarrow> analyze_stock env t = error_entry t ''cannot unpack non-iterable NoneType object''"
  by (simp add: analyze_stock_def get_stock_data_def)

lemma analyze_stock_full:
  "history env t = History df \<Longrightarrow> fundamentals env t = Returns (Fund_Dict f)
     \<Longrightarrow> technicals env df = Returns d
     \<Longrightarrow> analyze_stock env t = (f ++ d)(''ticker'' \<mapsto> VStr t)"
  by (simp add: analyze_stock_def get_stock_data_def run_fundamentals_def run_technicals_def)

text \<open>
  Claim C3 says that batch analysis returns one entry per requested ticker, that a ticker
  whose processing raises, for example because its provider fetch fails, gets an entry with
  an \<open>error\<close> field, and that the other entries are full results. Evaluated on the batch
  AAA, BBB, CCC where the history fetch of BBB raises, the mapping has three entries, but
  the entry of BBB is the ticker alone, without an \<open>error\<close> field: \<open>get_stock_data\<close> returns
  \<open>(None, None)\<close>, \<open>analyze_stock\<close> does not test for it, and the exceptions of both
  engines are replaced by empty dictionaries. Where the history of BBB is empty instead,
  the handler of \<open>analyze_stock\<close> does write the entry with the fields \<open>ticker\<close> and \<open>error\<close>.
\<close>

theorem batch_fetch_raises_no_error_field:
  "history provider_fetch_raises ''BBB'' = History_Raises
   \<and> map_sum id (\<lambda>results. (card (dom results), results ''BBB'', results ''AAA''))
       (analyze_multiple_stocks provider_fetch_raises [''AAA'', ''BBB'', ''CCC''] 10)
     = Inr (3, Some [''ticker'' \<mapsto> VStr ''BBB''],
            Some [''ROE'' \<mapsto> VNum (Fin 18), ''total_score'' \<mapsto> VNum (Fin 11),
                  ''ticker'' \<mapsto> VStr ''AAA''])
   \<and> [''ticker'' \<mapsto> VStr ''BBB''] ''error'' = None
   \<and> history provider_fetch_empty ''BBB'' = History_Empty
   \<and> map_sum id (\<lambda>results. (card (dom results), map_option dom (results ''BBB'')))
       (analyze_multiple_stocks provider_fetch_empty [''AAA'', ''BBB'', ''CCC''] 10)
     = Inr (3, Some {''ticker'', ''error''})"
proof -
  have h: "history provider_fetch_raises ''BBB'' = History_Raises"
    "history provider_fetch_raises ''AAA'' = History ''AAA''"
    "fundamentals provider_fetch_raises ''AAA'' = Returns (Fund_Dict [''ROE'' \<mapsto> VNum (Fin 18)])"
    "technicals provider_fetch_raises ''AAA'' = Returns [''total_score'' \<mapsto> VNum (Fin 11)]"
    "history provider_fetch_empty ''BBB'' = History_Empty"
    by (simp_all add: provider_fetch_raises_def provider_fetch_empty_def)
  obtain results where r:
    "analyze_multiple_stocks provider_fetch_raises [''AAA'', ''BBB'', ''CCC''] 10 = Inr results"
    "\<And>t. results t = (if t \<in> set [''AAA'', ''BBB'', ''CCC'']
                        then Some (analyze_stock provider_fetch_raises t) else None)"
    using analyze_multiple_stocks_lookup [of 10 provider_fetch_raises "[''AAA'', ''BBB'', ''CCC'']"]
    by auto
  have d: "dom results = {''AAA'', ''BBB'', ''CCC''}"
    using r(2) by (auto simp add: dom_def)
  have b: "results ''BBB'' = Some [''ticker'' \<mapsto> VStr ''BBB'']"
    using r(2) [of "''BBB''"] analyze_stock_fetch_raises [OF h(1)] by simp
  have a': "([''ROE'' \<mapsto> VNum (Fin 18)] ++ [''total_score'' \<mapsto> VNum (Fin 11)])(''ticker'' \<mapsto> VStr ''AAA'')
     = [''ROE'' \<mapsto> VNum (Fin 18), ''total_score'' \<mapsto> VNum (Fin 11), ''ticker'' \<mapsto> VStr ''AAA'']"
    by (rule ext) (simp add: map_add_def)
  have a: "results ''AAA'' = Some [''ROE'' \<mapsto> VNum (Fin 18), ''total_score'' \<mapsto> VNum (Fin 11),
                                   ''ticker'' \<mapsto> VStr ''AAA'']"
    using r(2) [of "''AAA''"] analyze_stock_full [OF h(2) h(3) h(4)] a' by simp
  obtain results' where r':
    "analyze_multiple_stocks provider_fetch_empty [''AAA'', ''BBB'', ''CCC''] 10 = Inr results'"
    "\<And>t. results' t = (if t \<in> set [''AAA'', ''BBB'', ''CCC'']
                         then Some (analyze_stock provider_fetch_empty t) else None)"
    using analyze_multiple_stocks_lookup [of 10 provider_fetch_empty "[''AAA'', ''BBB'', ''CCC'']"]
    by auto
  have d': "dom results' = {''AAA'', ''BBB'', ''CCC''}"
    using r'(2) by (auto simp add: dom_def)
  have b': "map_option dom (results' ''BBB'') = Some {''ticker'', ''error''}"
    using r'(2) [of "''BBB''"] analyze_stock_fetch_empty [OF h(5)]
    by (auto simp add: error_entry_def)
  show ?thesis
    using h(1) h(5) r(1) r'(1) a b b' by (simp add: d d')
qed

end
